theory Spec2Isabelle
  imports Main
begin

section \<open>Data model (src/types/index.ts)\<close>

text \<open>
  TypeScript \<open>number\<close> fields that hold percentages and head counts are modelled as
  \<open>int\<close>; optional fields (\<open>avatar?\<close>) as \<open>option\<close>. Field names carry a prefix where
  several interfaces share a name (\<open>id\<close>, \<open>name\<close>, \<open>startDate\<close>, ...).
\<close>

datatype user_role = Manager | EngineerRole

record user =
  user_id :: string
  user_name :: string
  user_email :: string
  user_role :: user_role
  user_avatar :: "string option"

datatype seniority = Junior | Mid | Senior | Lead

datatype employment = FullTime | PartTime

record engineer =
  eng_id :: string
  eng_name :: string
  eng_email :: string
  skills :: "string list"
  seniorityLevel :: seniority
  employmentType :: employment
  capacity :: int
  currentAllocation :: int
  eng_avatar :: "string option"
  joinDate :: string
  department :: "string option"

datatype project_status = Planning | Active | Completed

datatype project_priority = Low | Medium | High

record project =
  proj_id :: string
  proj_name :: string
  description :: string
  startDate :: string
  endDate :: string
  requiredTeamSize :: int
  requiredSkills :: "string list"
  status :: project_status
  priority :: project_priority
  createdBy :: string
  createdAt :: string

text \<open>Populated objects from the backend: \<open>PopulatedEngineer\<close>, \<open>PopulatedProject\<close>.\<close>

record populated_engineer =
  pe_id :: string
  pe_name :: string
  pe_email :: string

record populated_project =
  pp_id :: string
  pp_name :: string

text \<open>\<open>engineerId: string | PopulatedEngineer\<close> and \<open>projectId: string | PopulatedProject\<close>.\<close>

datatype engineer_ref = EngineerId string | EngineerObj populated_engineer

datatype project_ref = ProjectId string | ProjectObj populated_project

record assignment =
  asg_id :: string
  engineerId :: engineer_ref
  projectId :: project_ref
  allocationPercentage :: int
  asg_startDate :: string
  asg_endDate :: string
  asg_role :: "string option"
  asg_notes :: "string option"
  asg_createdAt :: "string option"
  asg_createdBy :: "string option"

text \<open>\<open>AppState\<close> with the \<open>token\<close> that \<open>initialState\<close> of AppContext adds.\<close>

record app_state =
  currentUser :: "user option"
  engineers :: "engineer list"
  projects :: "project list"
  assignments :: "assignment list"
  isLoading :: bool
  token :: "string option"

definition initialState :: app_state where
  "initialState = \<lparr>currentUser = None, engineers = [], projects = [], assignments = [],
     isLoading = False, token = None\<rparr>"

text \<open>
  \<open>Partial<Engineer>\<close> and \<open>Partial<Project>\<close>: every key may be absent. The spread
  \<open>{ ...eng, ...patch }\<close> overrides exactly the keys the patch carries.
\<close>

record engineer_patch =
  pt_eng_id :: "string option"
  pt_eng_name :: "string option"
  pt_eng_email :: "string option"
  pt_skills :: "string list option"
  pt_seniorityLevel :: "seniority option"
  pt_employmentType :: "employment option"
  pt_capacity :: "int option"
  pt_currentAllocation :: "int option"
  pt_eng_avatar :: "string option"
  pt_joinDate :: "string option"
  pt_department :: "string option"

record project_patch =
  pt_proj_id :: "string option"
  pt_proj_name :: "string option"
  pt_description :: "string option"
  pt_startDate :: "string option"
  pt_endDate :: "string option"
  pt_requiredTeamSize :: "int option"
  pt_requiredSkills :: "string list option"
  pt_status :: "project_status option"
  pt_priority :: "project_priority option"
  pt_createdBy :: "string option"
  pt_createdAt :: "string option"

definition override :: "'a \<Rightarrow> 'a option \<Rightarrow> 'a" where
  "override old new = (case new of None \<Rightarrow> old | Some v \<Rightarrow> v)"

definition override_opt :: "'a option \<Rightarrow> 'a option \<Rightarrow> 'a option" where
  "override_opt old new = (case new of None \<Rightarrow> old | Some v \<Rightarrow> Some v)"

definition spread_engineer :: "engineer \<Rightarrow> engineer_patch \<Rightarrow> engineer" where
  "spread_engineer e p =
     \<lparr>eng_id = override (eng_id e) (pt_eng_id p),
      eng_name = override (eng_name e) (pt_eng_name p),
      eng_email = override (eng_email e) (pt_eng_email p),
      skills = override (skills e) (pt_skills p),
      seniorityLevel = override (seniorityLevel e) (pt_seniorityLevel p),
      employmentType = override (employmentType e) (pt_employmentType p),
      capacity = override (capacity e) (pt_capacity p),
      currentAllocation = override (currentAllocation e) (pt_currentAllocation p),
      eng_avatar = override_opt (eng_avatar e) (pt_eng_avatar p),
      joinDate = override (joinDate e) (pt_joinDate p),
      department = override_opt (department e) (pt_department p)\<rparr>"

definition spread_project :: "project \<Rightarrow> project_patch \<Rightarrow> project" where
  "spread_project q p =
     \<lparr>proj_id = override (proj_id q) (pt_proj_id p),
      proj_name = override (proj_name q) (pt_proj_name p),
      description = override (description q) (pt_description p),
      startDate = override (startDate q) (pt_startDate p),
      endDate = override (endDate q) (pt_endDate p),
      requiredTeamSize = override (requiredTeamSize q) (pt_requiredTeamSize p),
      requiredSkills = override (requiredSkills q) (pt_requiredSkills p),
      status = override (status q) (pt_status p),
      priority = override (priority q) (pt_priority p),
      createdBy = override (createdBy q) (pt_createdBy p),
      createdAt = override (createdAt q) (pt_createdAt p)\<rparr>"

text \<open>A full record used as a patch (the server's answer in \<open>addEngineer\<close>, \<open>addProject\<close>).\<close>

definition engineer_as_patch :: "engineer \<Rightarrow> engineer_patch" where
  "engineer_as_patch e =
     \<lparr>pt_eng_id = Some (eng_id e), pt_eng_name = Some (eng_name e),
      pt_eng_email = Some (eng_email e), pt_skills = Some (skills e),
      pt_seniorityLevel = Some (seniorityLevel e),
      pt_employmentType = Some (employmentType e), pt_capacity = Some (capacity e),
      pt_currentAllocation = Some (currentAllocation e), pt_eng_avatar = eng_avatar e,
      pt_joinDate = Some (joinDate e), pt_department = department e\<rparr>"

definition project_as_patch :: "project \<Rightarrow> project_patch" where
  "project_as_patch q =
     \<lparr>pt_proj_id = Some (proj_id q), pt_proj_name = Some (proj_name q),
      pt_description = Some (description q), pt_startDate = Some (startDate q),
      pt_endDate = Some (endDate q), pt_requiredTeamSize = Some (requiredTeamSize q),
      pt_requiredSkills = Some (requiredSkills q), pt_status = Some (status q),
      pt_priority = Some (priority q), pt_createdBy = Some (createdBy q),
      pt_createdAt = Some (createdAt q)\<rparr>"

section \<open>Application store (AppContext: \<open>appReducer\<close>)\<close>

datatype action =
    SET_LOADING bool
  | LOGIN user string
  | LOGOUT
  | SET_ENGINEERS "engineer list"
  | SET_PROJECTS "project list"
  | SET_ASSIGNMENTS "assignment list"
  | ADD_ENGINEER engineer
  | UPDATE_ENGINEER string engineer_patch
  | ADD_PROJECT project
  | UPDATE_PROJECT string project_patch
  | ADD_ASSIGNMENT assignment
  | REMOVE_ASSIGNMENT string

fun appReducer :: "app_state \<Rightarrow> action \<Rightarrow> app_state" where
  "appReducer st (SET_LOADING b) = st\<lparr>isLoading := b\<rparr>"
| "appReducer st (LOGIN u t) = st\<lparr>currentUser := Some u, token := Some t\<rparr>"
| "appReducer st LOGOUT = st\<lparr>currentUser := None, token := None\<rparr>"
| "appReducer st (SET_ENGINEERS es) = st\<lparr>engineers := es\<rparr>"
| "appReducer st (SET_PROJECTS ps) = st\<lparr>projects := ps\<rparr>"
| "appReducer st (SET_ASSIGNMENTS as) = st\<lparr>assignments := as\<rparr>"
| "appReducer st (ADD_ENGINEER e) = st\<lparr>engineers := engineers st @ [e]\<rparr>"
| "appReducer st (UPDATE_ENGINEER i p) =
     st\<lparr>engineers := map (\<lambda>eng. if eng_id eng = i then spread_engineer eng p else eng)
                          (engineers st)\<rparr>"
| "appReducer st (ADD_PROJECT q) = st\<lparr>projects := projects st @ [q]\<rparr>"
| "appReducer st (UPDATE_PROJECT i p) =
     st\<lparr>projects := map (\<lambda>proj. if proj_id proj = i then spread_project proj p else proj)
                         (projects st)\<rparr>"
| "appReducer st (ADD_ASSIGNMENT a) = st\<lparr>assignments := assignments st @ [a]\<rparr>"
| "appReducer st (REMOVE_ASSIGNMENT i) =
     st\<lparr>assignments := filter (\<lambda>a. asg_id a \<noteq> i) (assignments st)\<rparr>"

subsection \<open>Utility functions of AppContext\<close>

text \<open>
  \<open>assignment.engineerId === engineerId\<close>: strict equality of a
  \<open>string | PopulatedEngineer\<close> with a string. An object is never \<open>===\<close> a string.
\<close>

fun engineer_ref_eq :: "engineer_ref \<Rightarrow> string \<Rightarrow> bool" where
  "engineer_ref_eq (EngineerId s) t = (s = t)"
| "engineer_ref_eq (EngineerObj p) t = False"

fun project_ref_eq :: "project_ref \<Rightarrow> string \<Rightarrow> bool" where
  "project_ref_eq (ProjectId s) t = (s = t)"
| "project_ref_eq (ProjectObj p) t = False"

definition getEngineerWorkload :: "app_state \<Rightarrow> string \<Rightarrow> int" where
  "getEngineerWorkload st i =
     foldl (\<lambda>total a. total + allocationPercentage a) 0
       (filter (\<lambda>a. engineer_ref_eq (engineerId a) i) (assignments st))"

definition getProjectAssignments :: "app_state \<Rightarrow> string \<Rightarrow> assignment list" where
  "getProjectAssignments st i = filter (\<lambda>a. project_ref_eq (projectId a) i) (assignments st)"

text \<open>
  The resolution of a reference that AssignmentsView performs before it looks an
  engineer up: an object gives its \<open>_id\<close>, a string is the id itself.
\<close>

fun resolveEngineerRef :: "engineer_ref \<Rightarrow> string" where
  "resolveEngineerRef (EngineerId s) = s"
| "resolveEngineerRef (EngineerObj p) = pe_id p"

text \<open>
  The derived workload in the specification's words: the sum of
  \<open>allocationPercentage\<close> over all assignments whose \<open>engineerId\<close> resolves to the engineer.
\<close>

definition spec_workload :: "app_state \<Rightarrow> string \<Rightarrow> int" where
  "spec_workload st i =
     sum_list (map allocationPercentage
       (filter (\<lambda>a. resolveEngineerRef (engineerId a) = i) (assignments st)))"

section \<open>Realtime hook (src/hooks/useRealtimeSync.ts)\<close>

subsection \<open>Events, payloads and the hook's state\<close>

datatype source = Local | Server

text \<open>A snapshot of the three managed collections: \<open>{ engineers, projects, assignments }\<close>.\<close>

record snapshot =
  s_engineers :: "engineer list"
  s_projects :: "project list"
  s_assignments :: "assignment list"

text \<open>
  One record as \<open>response.json()\<close> returns it: the object read through its declared
  type (\<open>typed\<close>), and the text \<open>JSON.stringify\<close> gives for the object. That text is
  a matter of the object and not of its declared fields alone: it follows the order of
  the keys and includes properties the types leave out. The store and the event
  payloads work on the typed value.
\<close>

record 'a fetched =
  typed :: 'a
  json :: string

text \<open>What \<open>fetchServerData\<close> returns: the three arrays of fetched objects.\<close>

record server_data =
  sd_engineers :: "engineer fetched list"
  sd_projects :: "project fetched list"
  sd_assignments :: "assignment fetched list"

definition view :: "server_data \<Rightarrow> snapshot" where
  "view sd = \<lparr>s_engineers = map typed (sd_engineers sd),
     s_projects = map typed (sd_projects sd),
     s_assignments = map typed (sd_assignments sd)\<rparr>"

text \<open>The \<open>data\<close> of an optimistic update, one constructor per shape the callers pass.\<close>

datatype udata =
    DEngineer engineer
  | DProject project
  | DAssignment assignment
  | DEngineerUpdate string engineer_patch
  | DRemoved string

record counts =
  n_engineers :: nat
  n_projects :: nat
  n_assignments :: nat

record change_summary =
  added :: counts
  removed :: counts
  updated :: counts

text \<open>
  Event payloads (\<open>any\<close> in the source), one constructor per shape the code emits:
  \<open>{}\<close>, \<open>{ id, data }\<close>, a record of a collection, \<open>{ error }\<close>, the counts of
  \<open>external:changes-detected\<close>, \<open>{ strategy, serverData, localData }\<close> and \<open>{ data }\<close>.
\<close>

datatype payload =
    PEmpty
  | PTracked string udata
  | PEngineer engineer
  | PProject project
  | PAssignment assignment
  | PError string
  | PChanges change_summary
  | PConflict string snapshot snapshot
  | PData snapshot

record event =
  ev_type :: string
  ev_payload :: payload
  ev_timestamp :: nat
  ev_source :: source

text \<open>
  A thrown value: an \<open>Error\<close> with its message, or anything else (the code tests
  \<open>error instanceof Error\<close>).
\<close>

datatype thrown = Error string | NonError

definition error_message :: "thrown \<Rightarrow> string \<Rightarrow> string" where
  "error_message e dflt = (case e of Error m \<Rightarrow> m | NonError \<Rightarrow> dflt)"

definition describe :: "thrown \<Rightarrow> string" where
  "describe e = error_message e ''(thrown value)''"

text \<open>
  A listener is a function value: its identity (membership in a \<open>Set\<close> is by
  reference) and what a call of it does as far as the bus is concerned. Its body may call
  \<open>subscribe\<close> and the unsubscribe functions \<open>subscribe\<close> has returned (\<open>calls\<close>, in
  the order of the calls), and then it returns (\<open>None\<close>) or throws. A listener that is
  registered from inside a listener only returns or throws. Listeners that call \<open>emit\<close>
  or the tracker while an event is dispatched are outside this model.
\<close>

datatype bus_call =
    CallSubscribe string nat "event \<Rightarrow> thrown option"
  | CallUnsubscribe string nat

datatype listener =
  Listener (lid: nat) (calls: "event \<Rightarrow> bus_call list") (behaviour: "event \<Rightarrow> thrown option")

text \<open>
  \<open>OptimisticUpdate\<close>. The compensating action \<open>revert\<close> is a closure over the store: it
  either throws or returns with the store it leaves behind.
\<close>

record optimistic_update =
  upd_id :: string
  upd_type :: string
  upd_data :: udata
  upd_timestamp :: nat
  revert :: "(app_state \<Rightarrow> thrown + app_state) option"

record options =
  syncInterval :: nat
  maxRetries :: nat
  enableBroadcast :: bool

text \<open>The defaults of \<open>useRealtimeSync(options = {})\<close>.\<close>

definition default_options :: options where
  "default_options = \<lparr>syncInterval = 30000, maxRetries = 3, enableBroadcast = True\<rparr>"

text \<open>
  The state the code mutates, in one record: the reducer state of AppProvider (\<open>app\<close>),
  the refs of the hook (\<open>listeners\<close>, \<open>pendingUpdates\<close>, \<open>lastSync\<close>, \<open>isOnline\<close>), the ref
  of BackgroundSyncProvider (\<open>lastSyncData\<close>) and the environment: \<open>Date.now()\<close> is
  \<open>clock\<close>, \<open>setTimeout\<close> appends the due time and the id its callback closes over to
  \<open>timers\<close>, \<open>console.error\<close>/\<open>console.warn\<close> append to \<open>console\<close>. Three logs record
  what happened: every event object \<open>emit\<close> constructs (\<open>emitted\<close>), every listener call
  (\<open>delivered\<close>), and the id of every entry whose \<open>revert\<close> was called (\<open>reverts_run\<close>).
  Both JavaScript \<open>Map\<close>s and the \<open>Set\<close>s of listeners keep insertion order, so they are
  lists.
\<close>

record world =
  app :: app_state
  listeners :: "(string \<times> listener list) list"
  pendingUpdates :: "(string \<times> optimistic_update) list"
  lastSync :: nat
  isOnline :: bool
  lastSyncData :: "server_data option"
  clock :: nat
  timers :: "(nat \<times> string) list"
  console :: "string list"
  emitted :: "event list"
  delivered :: "(nat \<times> event) list"
  reverts_run :: "string list"

text \<open>What a call leaves behind: it returns, or it throws in the state reached so far.\<close>

datatype outcome = Returns world | Throws thrown world

fun state_of :: "outcome \<Rightarrow> world" where
  "state_of (Returns w) = w"
| "state_of (Throws e w) = w"

fun has_thrown :: "outcome \<Rightarrow> bool" where
  "has_thrown (Returns w) = False"
| "has_thrown (Throws e w) = True"

subsection \<open>JavaScript \<open>Map\<close> and \<open>Set\<close>\<close>

definition map_has :: "('k \<times> 'v) list \<Rightarrow> 'k \<Rightarrow> bool" where
  "map_has m k = (map_of m k \<noteq> None)"

definition map_get :: "('k \<times> 'v) list \<Rightarrow> 'k \<Rightarrow> 'v option" where
  "map_get m k = map_of m k"

text \<open>\<open>Map.prototype.set\<close>: an existing key keeps its position and gets the new value.\<close>

fun map_set :: "('k \<times> 'v) list \<Rightarrow> 'k \<Rightarrow> 'v \<Rightarrow> ('k \<times> 'v) list" where
  "map_set [] k v = [(k, v)]"
| "map_set ((k', v') # m) k v = (if k' = k then (k, v) # m else (k', v') # map_set m k v)"

definition map_delete :: "('k \<times> 'v) list \<Rightarrow> 'k \<Rightarrow> ('k \<times> 'v) list" where
  "map_delete m k = filter (\<lambda>kv. fst kv \<noteq> k) m"

definition map_values :: "('k \<times> 'v) list \<Rightarrow> 'v list" where
  "map_values m = map snd m"

text \<open>A \<open>Set\<close> of listeners: insertion order, membership by the identity of the function.\<close>

definition set_has :: "listener list \<Rightarrow> nat \<Rightarrow> bool" where
  "set_has ls n = (n \<in> set (map lid ls))"

definition set_add :: "listener list \<Rightarrow> listener \<Rightarrow> listener list" where
  "set_add ls l = (if set_has ls (lid l) then ls else ls @ [l])"

definition set_delete :: "listener list \<Rightarrow> nat \<Rightarrow> listener list" where
  "set_delete ls n = filter (\<lambda>l. lid l \<noteq> n) ls"

subsection \<open>Event bus: \<open>subscribe\<close>, \<open>emit\<close>\<close>

definition subscribe :: "world \<Rightarrow> string \<Rightarrow> listener \<Rightarrow> world" where
  "subscribe w ty l =
     (let m = (if \<not> map_has (listeners w) ty then map_set (listeners w) ty [] else listeners w)
      in case map_get m ty of
           None \<Rightarrow> w\<lparr>listeners := m\<rparr>
         | Some ls \<Rightarrow> w\<lparr>listeners := map_set m ty (set_add ls l)\<rparr>)"

text \<open>The function \<open>subscribe\<close> returns, for the same type and the listener \<open>n\<close>.\<close>

definition unsubscribe :: "world \<Rightarrow> string \<Rightarrow> nat \<Rightarrow> world" where
  "unsubscribe w ty n =
     (case map_get (listeners w) ty of
        None \<Rightarrow> w
      | Some ls \<Rightarrow>
          (let ls' = set_delete ls n
           in if length ls' = 0 then w\<lparr>listeners := map_delete (listeners w) ty\<rparr>
              else w\<lparr>listeners := map_set (listeners w) ty ls'\<rparr>))"

text \<open>The listeners registered under a key, in the order of their \<open>Set\<close>.\<close>

definition listeners_for :: "world \<Rightarrow> string \<Rightarrow> listener list" where
  "listeners_for w key = (case map_get (listeners w) key of None \<Rightarrow> [] | Some ls \<Rightarrow> ls)"

text \<open>
  \<open>Set.prototype.forEach\<close> walks the live \<open>Set\<close>: an entry deleted before its turn is
  not visited, an entry added during the walk is visited at the end. The state of a walk
  over the \<open>Set\<close> registered under one key is the entries still to visit (\<open>remaining\<close>),
  whether the registry still holds this \<open>Set\<close> under the key (\<open>attached\<close>: the
  unsubscribe function deletes the key with the last listener, and a later \<open>subscribe\<close>
  creates another \<open>Set\<close>), and the state of the hook (\<open>bus\<close>).
\<close>

record walk =
  remaining :: "listener list"
  attached :: bool
  bus :: world

text \<open>One call a listener makes on the bus while the walk over the key \<open>key\<close> goes on.\<close>

fun bus_step :: "string \<Rightarrow> walk \<Rightarrow> bus_call \<Rightarrow> walk" where
  "bus_step key s (CallUnsubscribe k n) =
     (let w' = unsubscribe (bus s) k n
      in if k = key \<and> attached s
         then \<lparr>remaining = set_delete (remaining s) n,
               attached = map_has (listeners w') key, bus = w'\<rparr>
         else s\<lparr>bus := w'\<rparr>)"
| "bus_step key s (CallSubscribe k n b) =
     (let l = Listener n (\<lambda>ev. []) b;
          w' = subscribe (bus s) k l
      in if k = key \<and> attached s \<and> \<not> set_has (listeners_for (bus s) k) n
         then s\<lparr>remaining := remaining s @ [l], bus := w'\<rparr>
         else s\<lparr>bus := w'\<rparr>)"

text \<open>
  One turn of \<open>forEach\<close>: the listener is called inside \<open>try\<close>; what it throws is
  logged under the label of the loop.
\<close>

definition call_listener :: "string \<Rightarrow> event \<Rightarrow> string \<Rightarrow> listener \<Rightarrow> walk \<Rightarrow> walk" where
  "call_listener label ev key l s =
     (let s1 = foldl (bus_step key)
                 (s\<lparr>bus := (bus s)\<lparr>delivered := delivered (bus s) @ [(lid l, ev)]\<rparr>\<rparr>)
                 (calls l ev)
      in case behaviour l ev of
           None \<Rightarrow> s1
         | Some e \<Rightarrow> s1\<lparr>bus := (bus s1)\<lparr>console := console (bus s1) @ [label @ describe e]\<rparr>\<rparr>)"

text \<open>
  The walk ends: a listener makes finitely many calls, each adds at most one entry to
  visit, and an added entry makes no calls.
\<close>

definition turns :: "event \<Rightarrow> listener list \<Rightarrow> nat" where
  "turns ev ls = sum_list (map (\<lambda>l. Suc (length (calls l ev))) ls)"

lemma turns_set_delete: "turns ev (set_delete ls n) \<le> turns ev ls"
  unfolding turns_def set_delete_def
  by (induction ls) auto

lemma turns_bus_step: "turns ev (remaining (bus_step key s c)) \<le> Suc (turns ev (remaining s))"
proof (cases c)
  case (CallSubscribe k n b)
  then show ?thesis by (simp add: Let_def turns_def)
next
  case (CallUnsubscribe k n)
  have "turns ev (set_delete (remaining s) n) \<le> Suc (turns ev (remaining s))"
    using turns_set_delete [of ev "remaining s" n] by simp
  with CallUnsubscribe show ?thesis by (simp add: Let_def)
qed

lemma turns_bus_steps:
  "turns ev (remaining (foldl (bus_step key) s cs)) \<le> turns ev (remaining s) + length cs"
proof (induction cs arbitrary: s)
  case Nil
  show ?case by simp
next
  case (Cons c cs)
  have "turns ev (remaining (foldl (bus_step key) (bus_step key s c) cs))
          \<le> turns ev (remaining (bus_step key s c)) + length cs"
    by (rule Cons.IH)
  also have "\<dots> \<le> Suc (turns ev (remaining s)) + length cs"
    using turns_bus_step [of ev key s c] by simp
  finally show ?case by simp
qed

lemma turns_call_listener:
  "turns ev (remaining (call_listener label ev key l s))
     \<le> turns ev (remaining s) + length (calls l ev)"
  using turns_bus_steps
          [of ev key "s\<lparr>bus := (bus s)\<lparr>delivered := delivered (bus s) @ [(lid l, ev)]\<rparr>\<rparr>"
              "calls l ev"]
  by (simp add: call_listener_def Let_def split: option.splits)

function forEach :: "string \<Rightarrow> event \<Rightarrow> string \<Rightarrow> walk \<Rightarrow> world" where
  "forEach label ev key s =
     (case remaining s of
        [] \<Rightarrow> bus s
      | l # rest \<Rightarrow> forEach label ev key (call_listener label ev key l (s\<lparr>remaining := rest\<rparr>)))"
  by pat_completeness auto
termination
proof (relation "measure (\<lambda>(label, ev, key, s). turns ev (remaining s))")
  show "wf (measure (\<lambda>(label, ev, key, s). turns ev (remaining s)))"
    by simp
next
  fix label :: string and ev :: event and key :: string and s :: walk
    and l :: listener and rest :: "listener list"
  assume r: "remaining s = l # rest"
  have "turns ev (remaining (call_listener label ev key l (s\<lparr>remaining := rest\<rparr>)))
          \<le> turns ev rest + length (calls l ev)"
    using turns_call_listener [of ev label key l "s\<lparr>remaining := rest\<rparr>"] by simp
  also have "\<dots> < turns ev (l # rest)"
    by (simp add: turns_def)
  finally show "((label, ev, key, call_listener label ev key l (s\<lparr>remaining := rest\<rparr>)),
                 (label, ev, key, s))
                  \<in> measure (\<lambda>(label, ev, key, s). turns ev (remaining s))"
    using r by simp
qed

declare forEach.simps [simp del]

text \<open>\<open>listeners.current.get(key)\<close> and, when there is a \<open>Set\<close>, the walk over it.\<close>

definition notify :: "string \<Rightarrow> event \<Rightarrow> string \<Rightarrow> world \<Rightarrow> world" where
  "notify label ev key w =
     (case map_get (listeners w) key of
        None \<Rightarrow> w
      | Some ls \<Rightarrow> forEach label ev key \<lparr>remaining = ls, attached = True, bus = w\<rparr>)"

definition emit :: "options \<Rightarrow> world \<Rightarrow> string \<Rightarrow> payload \<Rightarrow> source \<Rightarrow> world" where
  "emit opts w ty p src =
     (if \<not> enableBroadcast opts then w
      else
        let ev = \<lparr>ev_type = ty, ev_payload = p, ev_timestamp = clock w, ev_source = src\<rparr>;
            w1 = w\<lparr>emitted := emitted w @ [ev]\<rparr>;
            w2 = notify ''Error in realtime event listener: '' ev ty w1
        in notify ''Error in global realtime event listener: '' ev ''*'' w2)"

subsection \<open>Optimistic update tracker\<close>

definition addOptimisticUpdate ::
  "options \<Rightarrow> world \<Rightarrow> string \<Rightarrow> string \<Rightarrow> udata \<Rightarrow>
   (app_state \<Rightarrow> thrown + app_state) option \<Rightarrow> world" where
  "addOptimisticUpdate opts w i ty d revertFn =
     (let update = \<lparr>upd_id = i, upd_type = ty, upd_data = d, upd_timestamp = clock w,
                     revert = revertFn\<rparr>;
          w1 = w\<lparr>pendingUpdates := map_set (pendingUpdates w) i update\<rparr>;
          w2 = emit opts w1 (''optimistic:'' @ ty) (PTracked i d) Local
      in w2\<lparr>timers := timers w2 @ [(clock w2 + 10000, i)]\<rparr>)"

definition confirmOptimisticUpdate :: "options \<Rightarrow> world \<Rightarrow> string \<Rightarrow> world" where
  "confirmOptimisticUpdate opts w i =
     (case map_get (pendingUpdates w) i of
        None \<Rightarrow> w
      | Some update \<Rightarrow>
          emit opts (w\<lparr>pendingUpdates := map_delete (pendingUpdates w) i\<rparr>)
            (''confirmed:'' @ upd_type update) (PTracked i (upd_data update)) Server)"

text \<open>
  \<open>update.revert()\<close> is called outside any \<open>try\<close>: when it throws, the statements after
  it (\<open>delete\<close>, \<open>emit\<close>) do not run and the exception leaves \<open>revertOptimisticUpdate\<close>.
\<close>

definition revertOptimisticUpdate :: "options \<Rightarrow> world \<Rightarrow> string \<Rightarrow> outcome" where
  "revertOptimisticUpdate opts w i =
     (case map_get (pendingUpdates w) i of
        None \<Rightarrow> Returns w
      | Some update \<Rightarrow>
          (let finish = (\<lambda>w'. emit opts (w'\<lparr>pendingUpdates := map_delete (pendingUpdates w') i\<rparr>)
                                 (''reverted:'' @ upd_type update) (PTracked i (upd_data update))
                                 Local)
           in case revert update of
                None \<Rightarrow> Returns (finish w)
              | Some f \<Rightarrow>
                  (let w1 = w\<lparr>reverts_run := reverts_run w @ [i]\<rparr>
                   in case f (app w1) of
                        Inl e \<Rightarrow> Throws e w1
                      | Inr st \<Rightarrow> Returns (finish (w1\<lparr>app := st\<rparr>)))))"

text \<open>The callback \<open>addOptimisticUpdate\<close> hands to \<open>setTimeout\<close>, for the id it closes over.\<close>

definition timeoutCallback :: "options \<Rightarrow> world \<Rightarrow> string \<Rightarrow> outcome" where
  "timeoutCallback opts w i =
     (if map_has (pendingUpdates w) i
      then revertOptimisticUpdate opts
             (w\<lparr>console := console w @ [''Optimistic update '' @ i @ '' timed out'']\<rparr>) i
      else Returns w)"

text \<open>
  The timer of \<open>setTimeout\<close>: a scheduled callback runs once, not before its due time.
  Firing a timer that is not scheduled or not yet due does nothing.
\<close>

definition fireTimer :: "options \<Rightarrow> world \<Rightarrow> nat \<times> string \<Rightarrow> outcome" where
  "fireTimer opts w t =
     (if t \<in> set (timers w) \<and> fst t \<le> clock w
      then timeoutCallback opts (w\<lparr>timers := remove1 t (timers w)\<rparr>) (snd t)
      else Returns w)"

definition getPendingUpdates :: "world \<Rightarrow> optimistic_update list" where
  "getPendingUpdates w = map_values (pendingUpdates w)"

definition pendingCount :: "world \<Rightarrow> nat" where
  "pendingCount w = length (pendingUpdates w)"

text \<open>Network status monitoring.\<close>

definition handleOnline :: "options \<Rightarrow> world \<Rightarrow> world" where
  "handleOnline opts w = emit opts (w\<lparr>isOnline := True\<rparr>) ''network:online'' PEmpty Local"

definition handleOffline :: "options \<Rightarrow> world \<Rightarrow> world" where
  "handleOffline opts w = emit opts (w\<lparr>isOnline := False\<rparr>) ''network:offline'' PEmpty Local"

text \<open>The passage of time: \<open>Date.now()\<close> never goes back.\<close>

definition advance :: "world \<Rightarrow> nat \<Rightarrow> world" where
  "advance w dt = w\<lparr>clock := clock w + dt\<rparr>"

text \<open>
  The operations a client of the hook can perform, and a run of them. A call that
  throws leaves the state it reached; the run goes on from there.
\<close>

datatype hook_op =
    OpEmit string payload source
  | OpSubscribe string listener
  | OpUnsubscribe string nat
  | OpAdd string string udata "(app_state \<Rightarrow> thrown + app_state) option"
  | OpConfirm string
  | OpRevert string
  | OpFire "nat \<times> string"
  | OpAdvance nat
  | OpDispatch action

fun step :: "options \<Rightarrow> world \<Rightarrow> hook_op \<Rightarrow> world" where
  "step opts w (OpEmit ty p src) = emit opts w ty p src"
| "step opts w (OpSubscribe ty l) = subscribe w ty l"
| "step opts w (OpUnsubscribe ty n) = unsubscribe w ty n"
| "step opts w (OpAdd i ty d r) = addOptimisticUpdate opts w i ty d r"
| "step opts w (OpConfirm i) = confirmOptimisticUpdate opts w i"
| "step opts w (OpRevert i) = state_of (revertOptimisticUpdate opts w i)"
| "step opts w (OpFire t) = state_of (fireTimer opts w t)"
| "step opts w (OpAdvance dt) = advance w dt"
| "step opts w (OpDispatch a) = w\<lparr>app := appReducer (app w) a\<rparr>"

definition run :: "options \<Rightarrow> world \<Rightarrow> hook_op list \<Rightarrow> world" where
  "run opts w ops = foldl (step opts) w ops"

text \<open>The state of a freshly mounted hook and store at time \<open>t\<close>.\<close>

definition initial_world :: "nat \<Rightarrow> bool \<Rightarrow> world" where
  "initial_world t online =
     \<lparr>app = initialState, listeners = [], pendingUpdates = [], lastSync = t,
      isOnline = online, lastSyncData = None, clock = t, timers = [], console = [],
      emitted = [], delivered = [], reverts_run = []\<rparr>"

section \<open>RealtimeProvider and the optimistic flows of AppProvider\<close>

text \<open>
  RealtimeProvider builds the one hook the application uses with
  \<open>{ syncInterval: 30000, enableBroadcast: true }\<close>; AppProvider and
  BackgroundSyncProvider reach it through \<open>useRealtime()\<close>.
\<close>

definition provider_options :: options where
  "provider_options = \<lparr>syncInterval = 30000, maxRetries = 3, enableBroadcast = True\<rparr>"

definition dispatch :: "world \<Rightarrow> action \<Rightarrow> world" where
  "dispatch w a = w\<lparr>app := appReducer (app w) a\<rparr>"

text \<open>A promise that has settled: rejected with the thrown value, or resolved.\<close>

datatype 'a settled = Rejected thrown | Resolved 'a

text \<open>A response: its \<open>ok\<close> flag and the value \<open>json()\<close> gives.\<close>

datatype 'a http = Http bool 'a

text \<open>The decimal digits of \<open>Date.now()\<close> in the template \<open>temp-${Date.now()}\<close>.\<close>

definition digit_char :: "nat \<Rightarrow> char" where
  "digit_char d = ''0123456789'' ! d"

function string_of_nat :: "nat \<Rightarrow> string" where
  "string_of_nat n =
     (if n < 10 then [digit_char n] else string_of_nat (n div 10) @ [digit_char (n mod 10)])"
  by pat_completeness auto
termination
  by (relation "measure id") auto

declare string_of_nat.simps [simp del]

definition temp_id :: "world \<Rightarrow> string" where
  "temp_id w = ''temp-'' @ string_of_nat (clock w)"

text \<open>\<open>console.error('Error handled:', ...)\<close> of \<open>handleError\<close>; its toast is not modelled.\<close>

definition handleError :: "world \<Rightarrow> thrown \<Rightarrow> world" where
  "handleError w e = w\<lparr>console := console w @ [''Error handled: '' @ describe e]\<rparr>"

text \<open>
  Each flow is an \<open>async\<close> function: \<open>_begin\<close> is the part before the \<open>await\<close> of the
  remote call, \<open>_settle\<close> the part after it, in the state the application has reached
  when the call settles. The argument \<open>state\<close> is the reducer state the closure was
  created with (\<open>const [state, dispatch] = useReducer(...)\<close>); \<open>dispatch\<close> acts on the
  store as it is when the action is processed. \<open>engineerData\<close> has no id
  (\<open>Omit<Engineer, 'id'>\<close>): the id of the record passed is overwritten. \<open>toISOString\<close>
  is the platform's rendering of an instant.
\<close>

definition addEngineer_begin :: "app_state \<Rightarrow> world \<Rightarrow> engineer \<Rightarrow> world" where
  "addEngineer_begin state w engineerData =
     (let tempId = temp_id w;
          optimisticEngineer = engineerData\<lparr>eng_id := tempId\<rparr>;
          w1 = dispatch w (ADD_ENGINEER optimisticEngineer);
          w2 = addOptimisticUpdate provider_options w1 tempId ''engineer:add''
                 (DEngineer optimisticEngineer)
                 (Some (\<lambda>st. Inr (appReducer st
                    (SET_ENGINEERS (filter (\<lambda>e. eng_id e \<noteq> tempId) (engineers state))))))
      in emit provider_options w2 ''engineer:added'' (PEngineer optimisticEngineer) Local)"

definition addEngineer_catch :: "world \<Rightarrow> string \<Rightarrow> thrown \<Rightarrow> outcome" where
  "addEngineer_catch w tempId error =
     (case revertOptimisticUpdate provider_options w tempId of
        Throws e w1 \<Rightarrow> Throws e w1
      | Returns w1 \<Rightarrow>
          Throws error (emit provider_options w1 ''engineer:error''
                          (PError (error_message error ''Unknown error'')) Local))"

definition addEngineer_settle ::
  "world \<Rightarrow> string \<Rightarrow> engineer http settled \<Rightarrow> outcome" where
  "addEngineer_settle w tempId res =
     (case res of
        Rejected error \<Rightarrow> addEngineer_catch w tempId error
      | Resolved (Http ok engineer) \<Rightarrow>
          if ok then
            (let w1 = confirmOptimisticUpdate provider_options w tempId;
                 w2 = dispatch w1 (UPDATE_ENGINEER tempId (engineer_as_patch engineer))
             in Returns (emit provider_options w2 ''engineer:confirmed'' (PEngineer engineer)
                           Local))
          else
            (case revertOptimisticUpdate provider_options w tempId of
               Throws e w1 \<Rightarrow> addEngineer_catch w1 tempId e
             | Returns w1 \<Rightarrow> addEngineer_catch w1 tempId (Error ''Failed to add engineer'')))"

definition current_user_id :: "app_state \<Rightarrow> string" where
  "current_user_id state = (case currentUser state of None \<Rightarrow> [] | Some u \<Rightarrow> user_id u)"

definition addProject_begin ::
  "(nat \<Rightarrow> string) \<Rightarrow> app_state \<Rightarrow> world \<Rightarrow> project \<Rightarrow> world" where
  "addProject_begin toISOString state w projectData =
     (let tempId = temp_id w;
          optimisticProject = projectData\<lparr>proj_id := tempId,
                                createdAt := toISOString (clock w),
                                createdBy := current_user_id state\<rparr>;
          w1 = dispatch w (ADD_PROJECT optimisticProject);
          w2 = addOptimisticUpdate provider_options w1 tempId ''project:add''
                 (DProject optimisticProject)
                 (Some (\<lambda>st. Inr (appReducer st
                    (SET_PROJECTS (filter (\<lambda>p. proj_id p \<noteq> tempId) (projects state))))))
      in emit provider_options w2 ''project:added'' (PProject optimisticProject) Local)"

definition addProject_settle :: "world \<Rightarrow> string \<Rightarrow> project settled \<Rightarrow> outcome" where
  "addProject_settle w tempId res =
     (case res of
        Resolved project \<Rightarrow>
          (let w1 = confirmOptimisticUpdate provider_options w tempId;
               w2 = dispatch w1 (UPDATE_PROJECT tempId (project_as_patch project))
           in Returns (emit provider_options w2 ''project:confirmed'' (PProject project) Local))
      | Rejected error \<Rightarrow>
          (case revertOptimisticUpdate provider_options w tempId of
             Throws e w1 \<Rightarrow> Throws e w1
           | Returns w1 \<Rightarrow>
               Throws error (emit provider_options (handleError w1 error) ''project:error''
                               (PError (error_message error ''Unknown error'')) Local)))"

definition addAssignment_begin ::
  "(nat \<Rightarrow> string) \<Rightarrow> app_state \<Rightarrow> world \<Rightarrow> assignment \<Rightarrow> world" where
  "addAssignment_begin toISOString state w assignmentData =
     (let tempId = temp_id w;
          optimisticAssignment = assignmentData\<lparr>asg_id := tempId,
                                   asg_createdAt := Some (toISOString (clock w)),
                                   asg_createdBy := Some (current_user_id state)\<rparr>;
          w1 = dispatch w (ADD_ASSIGNMENT optimisticAssignment);
          w2 = addOptimisticUpdate provider_options w1 tempId ''assignment:add''
                 (DAssignment optimisticAssignment)
                 (Some (\<lambda>st. Inr (appReducer st (REMOVE_ASSIGNMENT tempId))))
      in emit provider_options w2 ''assignment:added'' (PAssignment optimisticAssignment)
           Local)"

definition addAssignment_settle :: "world \<Rightarrow> string \<Rightarrow> assignment settled \<Rightarrow> outcome" where
  "addAssignment_settle w tempId res =
     (case res of
        Resolved assignment \<Rightarrow>
          (let w1 = confirmOptimisticUpdate provider_options w tempId;
               w2 = dispatch w1 (REMOVE_ASSIGNMENT tempId);
               w3 = dispatch w2 (ADD_ASSIGNMENT assignment)
           in Returns (emit provider_options w3 ''assignment:confirmed''
                         (PAssignment assignment) Local))
      | Rejected error \<Rightarrow>
          (case revertOptimisticUpdate provider_options w tempId of
             Throws e w1 \<Rightarrow> Throws e w1
           | Returns w1 \<Rightarrow>
               Throws error (emit provider_options (handleError w1 error) ''assignment:error''
                               (PError (error_message error ''Unknown error'')) Local)))"

section \<open>Background synchronisation (BackgroundSyncProvider)\<close>

text \<open>\<open>!app.token\<close>: \<open>null\<close> and the empty string are both falsy.\<close>

definition no_token :: "app_state \<Rightarrow> bool" where
  "no_token a = (token a = None \<or> token a = Some [])"

text \<open>
  \<open>fetchServerData\<close>. The argument is what the three requests and their \<open>json()\<close> calls
  settle to; \<open>appc\<close> is the context value \<open>app\<close> the closure was created with.
\<close>

type_synonym responses =
  "engineer fetched list http \<times> project fetched list http \<times> assignment fetched list http"

definition fetchServerData :: "app_state \<Rightarrow> responses settled \<Rightarrow> server_data settled" where
  "fetchServerData appc net =
     (if no_token appc then Rejected (Error ''No authentication token'')
      else case net of
             Rejected e \<Rightarrow> Rejected e
           | Resolved (Http ok1 es, Http ok2 ps, Http ok3 as) \<Rightarrow>
               if \<not> ok1 \<or> \<not> ok2 \<or> \<not> ok3 then Rejected (Error ''Failed to fetch server data'')
               else Resolved \<lparr>sd_engineers = es, sd_projects = ps, sd_assignments = as\<rparr>)"

definition resolveConflicts ::
  "world \<Rightarrow> server_data \<Rightarrow> snapshot \<Rightarrow> world \<times> server_data" where
  "resolveConflicts w serverData localData =
     (emit provider_options w ''sync:conflict-resolved''
        (PConflict ''server-wins'' (view serverData) localData) Local,
      serverData)"

text \<open>
  The three filters of \<open>checkForChanges\<close>, for a collection of fetched objects whose
  \<open>id\<close> is \<open>key\<close>. \<open>JSON.stringify(old) !== JSON.stringify(e)\<close> compares the texts of the
  two objects.
\<close>

definition new_items ::
  "('a \<Rightarrow> string) \<Rightarrow> 'a fetched list \<Rightarrow> 'a fetched list \<Rightarrow> 'a fetched list" where
  "new_items key newList oldList =
     filter (\<lambda>e. find (\<lambda>old. key (typed old) = key (typed e)) oldList = None) newList"

definition removed_items ::
  "('a \<Rightarrow> string) \<Rightarrow> 'a fetched list \<Rightarrow> 'a fetched list \<Rightarrow> 'a fetched list" where
  "removed_items key newList oldList =
     filter (\<lambda>e. find (\<lambda>new. key (typed new) = key (typed e)) newList = None) oldList"

definition updated_items ::
  "('a \<Rightarrow> string) \<Rightarrow> 'a fetched list \<Rightarrow> 'a fetched list \<Rightarrow> 'a fetched list" where
  "updated_items key newList oldList =
     filter (\<lambda>e. case find (\<lambda>old. key (typed old) = key (typed e)) oldList of
                   None \<Rightarrow> False
                 | Some old \<Rightarrow> json old \<noteq> json e) newList"

definition emit_each ::
  "string \<Rightarrow> ('a \<Rightarrow> payload) \<Rightarrow> world \<Rightarrow> 'a fetched list \<Rightarrow> world" where
  "emit_each ty mk w xs =
     foldl (\<lambda>w' x. emit provider_options w' ty (mk (typed x)) Server) w xs"

definition checkForChanges :: "world \<Rightarrow> server_data \<Rightarrow> server_data option \<Rightarrow> world" where
  "checkForChanges w newData oldData' =
     (case oldData' of
        None \<Rightarrow> w
      | Some oldData \<Rightarrow>
         (let newEngineers = new_items eng_id (sd_engineers newData) (sd_engineers oldData);
              newProjects = new_items proj_id (sd_projects newData) (sd_projects oldData);
              newAssignments =
                new_items asg_id (sd_assignments newData) (sd_assignments oldData);
              removedEngineers =
                removed_items eng_id (sd_engineers newData) (sd_engineers oldData);
              removedProjects =
                removed_items proj_id (sd_projects newData) (sd_projects oldData);
              removedAssignments =
                removed_items asg_id (sd_assignments newData) (sd_assignments oldData);
              updatedEngineers =
                updated_items eng_id (sd_engineers newData) (sd_engineers oldData);
              updatedProjects =
                updated_items proj_id (sd_projects newData) (sd_projects oldData);
              updatedAssignments =
                updated_items asg_id (sd_assignments newData) (sd_assignments oldData);
              w1 = emit_each ''external:engineer:added'' PEngineer w newEngineers;
              w2 = emit_each ''external:project:added'' PProject w1 newProjects;
              w3 = emit_each ''external:assignment:added'' PAssignment w2 newAssignments;
              w4 = emit_each ''external:engineer:removed'' PEngineer w3 removedEngineers;
              w5 = emit_each ''external:project:removed'' PProject w4 removedProjects;
              w6 = emit_each ''external:assignment:removed'' PAssignment w5 removedAssignments;
              w7 = emit_each ''external:engineer:updated'' PEngineer w6 updatedEngineers;
              w8 = emit_each ''external:project:updated'' PProject w7 updatedProjects;
              w9 = emit_each ''external:assignment:updated'' PAssignment w8 updatedAssignments
          in if length newEngineers \<noteq> 0 \<or> length newProjects \<noteq> 0
                \<or> length newAssignments \<noteq> 0 \<or> length removedEngineers \<noteq> 0
                \<or> length removedProjects \<noteq> 0 \<or> length removedAssignments \<noteq> 0
                \<or> length updatedEngineers \<noteq> 0 \<or> length updatedProjects \<noteq> 0
                \<or> length updatedAssignments \<noteq> 0
             then emit provider_options w9 ''external:changes-detected''
                    (PChanges
                       \<lparr>added = \<lparr>n_engineers = length newEngineers,
                                  n_projects = length newProjects,
                                  n_assignments = length newAssignments\<rparr>,
                        removed = \<lparr>n_engineers = length removedEngineers,
                                    n_projects = length removedProjects,
                                    n_assignments = length removedAssignments\<rparr>,
                        updated = \<lparr>n_engineers = length updatedEngineers,
                                    n_projects = length updatedProjects,
                                    n_assignments = length updatedAssignments\<rparr>\<rparr>)
                    Server
             else w9))"

text \<open>
  \<open>performSync\<close>, split at its \<open>await\<close>. \<open>performSync_begin\<close> is \<open>None\<close> when the function
  returns at its first line. \<open>appc\<close> is the context value \<open>app\<close> of the render that
  created the closure: \<open>app.currentUser\<close>, \<open>app.token\<close> and the three collections of
  \<open>currentData\<close> are read from it, whatever the store holds by then. The refs
  (\<open>lastSyncDataRef\<close>, the tracker's entries) are read as they are when the statement
  runs. \<open>app.dispatch\<close> is always supplied by AppProvider and acts on the store as it is
  when the action is processed.
\<close>

definition performSync_begin :: "app_state \<Rightarrow> world \<Rightarrow> world option" where
  "performSync_begin appc w =
     (if currentUser appc = None \<or> no_token appc then None
      else Some (emit provider_options w ''sync:start'' PEmpty Local))"

definition performSync_resume :: "app_state \<Rightarrow> world \<Rightarrow> server_data settled \<Rightarrow> world" where
  "performSync_resume appc w fetched =
     (case fetched of
        Rejected error \<Rightarrow>
          emit provider_options
            (w\<lparr>console := console w @ [''Background sync failed: '' @ describe error]\<rparr>)
            ''sync:error'' (PError (error_message error ''Unknown sync error'')) Local
      | Resolved serverData \<Rightarrow>
          (let currentData = \<lparr>s_engineers = engineers appc, s_projects = projects appc,
                              s_assignments = assignments appc\<rparr>;
               w1 = (if lastSyncData w \<noteq> None
                     then checkForChanges w serverData (lastSyncData w) else w);
               pending = getPendingUpdates w1;
               w2 = (if length pending > 0 then
                       (let (w', resolvedData) = resolveConflicts w1 serverData currentData;
                            a = dispatch w'
                                  (SET_ENGINEERS (map typed (sd_engineers resolvedData)));
                            b = dispatch a
                                  (SET_PROJECTS (map typed (sd_projects resolvedData)))
                        in dispatch b
                             (SET_ASSIGNMENTS (map typed (sd_assignments resolvedData))))
                     else
                       (let a = dispatch w1
                                  (SET_ENGINEERS (map typed (sd_engineers serverData)));
                            b = dispatch a
                                  (SET_PROJECTS (map typed (sd_projects serverData)))
                        in dispatch b
                             (SET_ASSIGNMENTS (map typed (sd_assignments serverData)))));
               w3 = w2\<lparr>lastSyncData := Some serverData\<rparr>
           in emit provider_options w3 ''sync:complete'' (PData (view serverData)) Server))"

text \<open>
  A whole \<open>performSync\<close>, run by a closure created with the context value \<open>appc\<close>, in
  the state \<open>w\<close>. While the remote call is in flight the rest of the application goes
  on (user actions, timers, other syncs): \<open>during\<close> is what it makes of the state before
  the call settles, and nothing is assumed about it.
\<close>

definition performSync ::
  "app_state \<Rightarrow> world \<Rightarrow> (world \<Rightarrow> world) \<Rightarrow> responses settled \<Rightarrow> world" where
  "performSync appc w during net =
     (case performSync_begin appc w of
        None \<Rightarrow> w
      | Some w1 \<Rightarrow> performSync_resume appc (during w1) (fetchServerData appc net))"

definition forceSync ::
  "app_state \<Rightarrow> world \<Rightarrow> (world \<Rightarrow> world) \<Rightarrow> responses settled \<Rightarrow> world" where
  "forceSync appc w during net = performSync appc w during net"

section \<open>Notions used in the statements\<close>

text \<open>The lines \<open>console.error\<close> receives from one \<open>forEach\<close>: one per listener that throws.\<close>

definition listener_errors :: "string \<Rightarrow> event \<Rightarrow> listener list \<Rightarrow> string list" where
  "listener_errors label ev ls =
     concat (map (\<lambda>l. case behaviour l ev of None \<Rightarrow> [] | Some e \<Rightarrow> [label @ describe e]) ls)"

definition make_event :: "nat \<Rightarrow> string \<Rightarrow> payload \<Rightarrow> source \<Rightarrow> event" where
  "make_event t ty p src =
     \<lparr>ev_type = ty, ev_payload = p, ev_timestamp = t, ev_source = src\<rparr>"

text \<open>The events emitted between two states of one run.\<close>

definition new_events :: "world \<Rightarrow> world \<Rightarrow> event list" where
  "new_events w w' = drop (length (emitted w)) (emitted w')"

definition events_of_type :: "string \<Rightarrow> event list \<Rightarrow> event list" where
  "events_of_type ty evs = filter (\<lambda>e. ev_type e = ty) evs"

text \<open>What the tracker owns or acts on: entries, expiries, the store, compensations run.\<close>

definition tracker_state ::
  "world \<Rightarrow> (string \<times> optimistic_update) list \<times> (nat \<times> string) list \<times> app_state \<times> string list"
  where
  "tracker_state w = (pendingUpdates w, timers w, app w, reverts_run w)"

text \<open>The compensating action of an entry is absent or returns normally on this store.\<close>

definition compensate_returns :: "optimistic_update \<Rightarrow> app_state \<Rightarrow> bool" where
  "compensate_returns u st =
     (case revert u of
        None \<Rightarrow> True
      | Some f \<Rightarrow> (case f st of Inl e \<Rightarrow> False | Inr st' \<Rightarrow> True))"

text \<open>The three collections of the store, as \<open>performSync\<close> reads them into \<open>currentData\<close>.\<close>

definition collections :: "app_state \<Rightarrow> snapshot" where
  "collections a =
     \<lparr>s_engineers = engineers a, s_projects = projects a, s_assignments = assignments a\<rparr>"

text \<open>
  The state the application has reached when the remote call of a \<open>performSync\<close> begun
  in \<open>w\<close> settles, \<open>during\<close> being what went on in between; and a sync during which
  nothing else goes on.
\<close>

definition at_settle :: "world \<Rightarrow> (world \<Rightarrow> world) \<Rightarrow> world" where
  "at_settle w during = during (emit provider_options w ''sync:start'' PEmpty Local)"

definition undisturbed :: "world \<Rightarrow> world" where
  "undisturbed v = v"

text \<open>
  Two states that differ at most in what the bus owns: the registry of listeners, the
  log of listener calls and the console.
\<close>

definition bus_only :: "world \<Rightarrow> world \<Rightarrow> bool" where
  "bus_only w w' =
     (app w' = app w \<and> pendingUpdates w' = pendingUpdates w \<and> lastSync w' = lastSync w
      \<and> isOnline w' = isOnline w \<and> lastSyncData w' = lastSyncData w \<and> clock w' = clock w
      \<and> timers w' = timers w \<and> emitted w' = emitted w \<and> reverts_run w' = reverts_run w)"

text \<open>The ids of a collection of fetched objects.\<close>

definition ids_of :: "('a \<Rightarrow> string) \<Rightarrow> 'a fetched list \<Rightarrow> string list" where
  "ids_of key xs = map (\<lambda>x. key (typed x)) xs"

section \<open>Concrete scenarios\<close>

definition failing_compensate :: "app_state \<Rightarrow> thrown + app_state" where
  "failing_compensate st = Inl (Error ''compensation failed'')"

definition keep_store :: "app_state \<Rightarrow> thrown + app_state" where
  "keep_store st = Inr st"



definition mounted :: world where
  "mounted = initial_world 0 True"

text \<open>The id \<open>u1\<close> registered at time 0 and again at time 5000.\<close>

definition readd_first :: world where
  "readd_first = addOptimisticUpdate default_options mounted ''u1'' ''engineer:add''
                   (DRemoved ''first'') None"

definition readd_second :: world where
  "readd_second = addOptimisticUpdate default_options (advance readd_first 5000) ''u1''
                    ''project:add'' (DRemoved ''second'') None"

text \<open>An entry whose compensating action throws, at its expiry.\<close>

definition stuck_entry :: world where
  "stuck_entry = advance (addOptimisticUpdate default_options mounted ''u1'' ''engineer:add''
                   (DRemoved ''x'') (Some failing_compensate)) 10000"

text \<open>An entry registered at 0 and replaced at 5000 under the same id, at time 10000.\<close>

definition replaced_entry :: world where
  "replaced_entry =
     advance (addOptimisticUpdate default_options
                (advance (addOptimisticUpdate default_options mounted ''u1'' ''engineer:add''
                            (DRemoved ''first'') (Some keep_store)) 5000)
                ''u1'' ''project:add'' (DRemoved ''second'') None) 5000"

definition expiring_entry :: world where
  "expiring_entry = advance (addOptimisticUpdate default_options mounted ''u1''
                      ''engineer:add'' (DRemoved ''x'') (Some keep_store)) 10000"

definition failing_entry :: world where
  "failing_entry = addOptimisticUpdate default_options mounted ''u1'' ''engineer:add''
                     (DRemoved ''x'') (Some failing_compensate)"

text \<open>A hook built with \<open>enableBroadcast: false\<close>, and an entry registered with it.\<close>

definition silent_options :: options where
  "silent_options = default_options\<lparr>enableBroadcast := False\<rparr>"

definition silent_entry :: world where
  "silent_entry = addOptimisticUpdate silent_options mounted ''u1'' ''engineer:add''
                    (DRemoved ''x'') (Some keep_store)"





definition sample_assignment :: "string \<Rightarrow> engineer_ref \<Rightarrow> int \<Rightarrow> assignment" where
  "sample_assignment i e pct =
     \<lparr>asg_id = i, engineerId = e, projectId = ProjectId ''p1'', allocationPercentage = pct,
      asg_startDate = ''2024-01-01'', asg_endDate = ''2024-06-30'', asg_role = None,
      asg_notes = None, asg_createdAt = None, asg_createdBy = None\<rparr>"

definition sample_engineer :: "string \<Rightarrow> engineer" where
  "sample_engineer i =
     \<lparr>eng_id = i, eng_name = ''Ada'', eng_email = ''ada@example.com'', skills = [''React''],
      seniorityLevel = Senior, employmentType = FullTime, capacity = 100,
      currentAllocation = 0, eng_avatar = None, joinDate = ''2020-01-01'',
      department = None\<rparr>"

definition sample_project :: "string \<Rightarrow> project" where
  "sample_project i =
     \<lparr>proj_id = i, proj_name = ''Apollo'', description = ''Launch'',
      startDate = ''2024-01-01'', endDate = ''2024-12-31'', requiredTeamSize = 3,
      requiredSkills = [''React''], status = Active, priority = High,
      createdBy = ''m1'', createdAt = ''2023-12-01''\<rparr>"

definition sample_user :: user where
  "sample_user = \<lparr>user_id = ''m1'', user_name = ''Grace'', user_email = ''grace@example.com'',
     user_role = Manager, user_avatar = None\<rparr>"

definition sample_iso :: "nat \<Rightarrow> string" where
  "sample_iso t = ''2024-01-01T00:00:00.000Z''"

text \<open>
  Two assignments of engineer \<open>e1\<close>: one refers to the engineer by id, the other by a
  populated object.
\<close>

definition populated_store :: app_state where
  "populated_store = initialState\<lparr>assignments :=
     [sample_assignment ''a1'' (EngineerId ''e1'') 40,
      sample_assignment ''a2''
        (EngineerObj \<lparr>pe_id = ''e1'', pe_name = ''Ada'', pe_email = ''ada@example.com''\<rparr>) 70]\<rparr>"

text \<open>A logged-in session at time 1000 with one engineer, one project, one assignment.\<close>

definition session_world :: world where
  "session_world = (initial_world 1000 True)
     \<lparr>app := \<lparr>currentUser = Some sample_user, engineers = [sample_engineer ''e1''],
               projects = [sample_project ''p1''],
               assignments = [sample_assignment ''a1'' (EngineerId ''e1'') 40],
               isLoading = False, token = Some ''token''\<rparr>\<rparr>"

text \<open>
  Two optimistic adds in that session, begun at 1000 and at 1500. The remote call of the
  second has succeeded (its temporary record is now the server's record, \<open>e2\<close>, \<open>p2\<close>,
  \<open>a2\<close>); the remote call of the first has not settled yet.
\<close>

definition two_engineer_adds :: world where
  "two_engineer_adds =
     (let w1 = addEngineer_begin (app session_world) session_world (sample_engineer []);
          w2 = advance w1 500;
          w3 = addEngineer_begin (app w2) w2 (sample_engineer [])
      in state_of (addEngineer_settle w3 ''temp-1500''
                     (Resolved (Http True (sample_engineer ''e2'')))))"

definition two_project_adds :: world where
  "two_project_adds =
     (let w1 = addProject_begin sample_iso (app session_world) session_world (sample_project []);
          w2 = advance w1 500;
          w3 = addProject_begin sample_iso (app w2) w2 (sample_project [])
      in state_of (addProject_settle w3 ''temp-1500'' (Resolved (sample_project ''p2''))))"

definition two_assignment_adds :: world where
  "two_assignment_adds =
     (let w1 = addAssignment_begin sample_iso (app session_world) session_world
                 (sample_assignment [] (EngineerId ''e1'') 60);
          w2 = advance w1 500;
          w3 = addAssignment_begin sample_iso (app w2) w2
                 (sample_assignment [] (EngineerId ''e1'') 10)
      in state_of (addAssignment_settle w3 ''temp-1500''
                     (Resolved (sample_assignment ''a2'' (EngineerId ''e1'') 10))))"

text \<open>The payloads of the events of one type, and how many events of a type there are.\<close>

definition payloads_of :: "string \<Rightarrow> event list \<Rightarrow> payload list" where
  "payloads_of ty evs = map ev_payload (events_of_type ty evs)"

text \<open>The events of the diff: their type starts with \<open>external:\<close>.\<close>

definition is_external :: "event \<Rightarrow> bool" where
  "is_external e = (take 9 (ev_type e) = ''external:'')"

definition count_of :: "string \<Rightarrow> event list \<Rightarrow> nat" where
  "count_of ty evs = length (events_of_type ty evs)"

text \<open>
  The counts per collection and kind of change, read off the per-record events of a
  list of events.
\<close>

definition summary_of :: "event list \<Rightarrow> change_summary" where
  "summary_of evs =
     \<lparr>added = \<lparr>n_engineers = count_of ''external:engineer:added'' evs,
                n_projects = count_of ''external:project:added'' evs,
                n_assignments = count_of ''external:assignment:added'' evs\<rparr>,
      removed = \<lparr>n_engineers = count_of ''external:engineer:removed'' evs,
                  n_projects = count_of ''external:project:removed'' evs,
                  n_assignments = count_of ''external:assignment:removed'' evs\<rparr>,
      updated = \<lparr>n_engineers = count_of ''external:engineer:updated'' evs,
                  n_projects = count_of ''external:project:updated'' evs,
                  n_assignments = count_of ''external:assignment:updated'' evs\<rparr>\<rparr>"

definition no_counts :: counts where
  "no_counts = \<lparr>n_engineers = 0, n_projects = 0, n_assignments = 0\<rparr>"

definition no_changes :: change_summary where
  "no_changes = \<lparr>added = no_counts, removed = no_counts, updated = no_counts\<rparr>"

text \<open>The events of one collection and one kind of change, in the order of the records.\<close>

definition record_events ::
  "nat \<Rightarrow> string \<Rightarrow> ('a \<Rightarrow> payload) \<Rightarrow> 'a fetched list \<Rightarrow> event list" where
  "record_events t ty mk xs = map (\<lambda>x. make_event t ty (mk (typed x)) Server) xs"

text \<open>The counts and the events of \<open>checkForChanges\<close> for two snapshots, at time \<open>t\<close>.\<close>

definition diff_summary :: "server_data \<Rightarrow> server_data \<Rightarrow> change_summary" where
  "diff_summary nw od =
     \<lparr>added = \<lparr>n_engineers = length (new_items eng_id (sd_engineers nw) (sd_engineers od)),
                n_projects = length (new_items proj_id (sd_projects nw) (sd_projects od)),
                n_assignments =
                  length (new_items asg_id (sd_assignments nw) (sd_assignments od))\<rparr>,
      removed = \<lparr>n_engineers =
                    length (removed_items eng_id (sd_engineers nw) (sd_engineers od)),
                  n_projects =
                    length (removed_items proj_id (sd_projects nw) (sd_projects od)),
                  n_assignments =
                    length (removed_items asg_id (sd_assignments nw) (sd_assignments od))\<rparr>,
      updated = \<lparr>n_engineers =
                    length (updated_items eng_id (sd_engineers nw) (sd_engineers od)),
                  n_projects =
                    length (updated_items proj_id (sd_projects nw) (sd_projects od)),
                  n_assignments =
                    length (updated_items asg_id (sd_assignments nw) (sd_assignments od))\<rparr>\<rparr>"

definition diff_events :: "nat \<Rightarrow> server_data \<Rightarrow> server_data \<Rightarrow> event list" where
  "diff_events t nw od =
     record_events t ''external:engineer:added'' PEngineer
       (new_items eng_id (sd_engineers nw) (sd_engineers od))
     @ record_events t ''external:project:added'' PProject
         (new_items proj_id (sd_projects nw) (sd_projects od))
     @ record_events t ''external:assignment:added'' PAssignment
         (new_items asg_id (sd_assignments nw) (sd_assignments od))
     @ record_events t ''external:engineer:removed'' PEngineer
         (removed_items eng_id (sd_engineers nw) (sd_engineers od))
     @ record_events t ''external:project:removed'' PProject
         (removed_items proj_id (sd_projects nw) (sd_projects od))
     @ record_events t ''external:assignment:removed'' PAssignment
         (removed_items asg_id (sd_assignments nw) (sd_assignments od))
     @ record_events t ''external:engineer:updated'' PEngineer
         (updated_items eng_id (sd_engineers nw) (sd_engineers od))
     @ record_events t ''external:project:updated'' PProject
         (updated_items proj_id (sd_projects nw) (sd_projects od))
     @ record_events t ''external:assignment:updated'' PAssignment
         (updated_items asg_id (sd_assignments nw) (sd_assignments od))
     @ (if diff_summary nw od = no_changes then []
        else [make_event t ''external:changes-detected'' (PChanges (diff_summary nw od))
                Server])"

text \<open>
  The events of a \<open>performSync\<close> after its remote call has succeeded with \<open>nw\<close>, in
  the state \<open>v\<close> it finds then, run by a closure created with \<open>appc\<close>.
\<close>

definition settle_events :: "app_state \<Rightarrow> world \<Rightarrow> server_data \<Rightarrow> event list" where
  "settle_events appc v nw =
     (case lastSyncData v of None \<Rightarrow> [] | Some od \<Rightarrow> diff_events (clock v) nw od)
     @ (if pendingUpdates v = [] then []
        else [make_event (clock v) ''sync:conflict-resolved''
                (PConflict ''server-wins'' (view nw) (collections appc)) Local])
     @ [make_event (clock v) ''sync:complete'' (PData (view nw)) Server]"

text \<open>
  Objects as the server sends them, for the scenarios below. The texts stand for what
  \<open>JSON.stringify\<close> gives (quotation marks and the remaining keys left out);
  \<open>reordered_engineer\<close> is the same engineer sent with its keys in another order.
\<close>

definition fetched_engineer :: "string \<Rightarrow> engineer fetched" where
  "fetched_engineer i =
     \<lparr>typed = sample_engineer i, json = ''{id:'' @ i @ '',name:Ada,email:ada@example.com}''\<rparr>"

definition reordered_engineer :: "string \<Rightarrow> engineer fetched" where
  "reordered_engineer i =
     \<lparr>typed = sample_engineer i, json = ''{name:Ada,email:ada@example.com,id:'' @ i @ ''}''\<rparr>"

definition fetched_project :: "string \<Rightarrow> project fetched" where
  "fetched_project i = \<lparr>typed = sample_project i, json = ''{id:'' @ i @ '',name:Apollo}''\<rparr>"

definition fetched_assignment :: "string \<Rightarrow> assignment fetched" where
  "fetched_assignment i =
     \<lparr>typed = sample_assignment i (EngineerId ''e1'') 40,
      json = ''{id:'' @ i @ '',engineerId:e1,projectId:p1,allocationPercentage:40}''\<rparr>"

definition sample_net :: "responses settled" where
  "sample_net = Resolved (Http True [fetched_engineer ''e1'', fetched_engineer ''e9''],
                          Http True [fetched_project ''p1''],
                          Http True [fetched_assignment ''a1''])"

definition sample_server :: server_data where
  "sample_server = \<lparr>sd_engineers = [fetched_engineer ''e1'', fetched_engineer ''e9''],
     sd_projects = [fetched_project ''p1''],
     sd_assignments = [fetched_assignment ''a1'']\<rparr>"

text \<open>The session with one pending optimistic add of an engineer.\<close>

definition conflict_world_a :: world where
  "conflict_world_a = session_world\<lparr>pendingUpdates :=
     [(''temp-900'', \<lparr>upd_id = ''temp-900'', upd_type = ''engineer:add'',
        upd_data = DEngineer (sample_engineer ''temp-900''), upd_timestamp = 900,
        revert = None\<rparr>)]\<rparr>"

text \<open>The same session with one pending removal of an assignment instead.\<close>

definition conflict_world_b :: world where
  "conflict_world_b = session_world\<lparr>pendingUpdates :=
     [(''remove-a1-950'', \<lparr>upd_id = ''remove-a1-950'', upd_type = ''assignment:remove'',
        upd_data = DRemoved ''a1'', upd_timestamp = 950, revert = None\<rparr>)]\<rparr>"

text \<open>
  What goes on while the remote call of a sync begun in \<open>session_world\<close> is in flight:
  an engineer is added optimistically (the temporary record enters the store and is
  registered with the tracker).
\<close>

definition add_during_fetch :: "world \<Rightarrow> world" where
  "add_during_fetch v =
     run provider_options v
       [OpDispatch (ADD_ENGINEER (sample_engineer ''temp-1000'')),
        OpAdd ''temp-1000'' ''engineer:add'' (DEngineer (sample_engineer ''temp-1000'')) None,
        OpEmit ''engineer:added'' (PEngineer (sample_engineer ''temp-1000'')) Local]"

text \<open>The session while the browser is offline.\<close>

definition offline_world :: world where
  "offline_world = session_world\<lparr>isOnline := False\<rparr>"

text \<open>
  The session after a first sync: the last snapshot is what the store holds. The next
  server answer has one more engineer, \<open>e9\<close>.
\<close>

definition previous_snapshot :: server_data where
  "previous_snapshot = \<lparr>sd_engineers = [fetched_engineer ''e1''],
     sd_projects = [fetched_project ''p1''],
     sd_assignments = [fetched_assignment ''a1'']\<rparr>"

definition synced_world :: world where
  "synced_world = session_world\<lparr>lastSyncData := Some previous_snapshot\<rparr>"

text \<open>
  The same server answer, except that engineer \<open>e1\<close> now arrives with its keys in
  another order.
\<close>

definition reordered_net :: "responses settled" where
  "reordered_net = Resolved (Http True [reordered_engineer ''e1'', fetched_engineer ''e9''],
                             Http True [fetched_project ''p1''],
                             Http True [fetched_assignment ''a1''])"

text \<open>
  A previous snapshot in which two engineers share the id \<open>e1\<close>, and a server answer
  with the same two and one more engineer.
\<close>

definition duplicate_snapshot :: server_data where
  "duplicate_snapshot = \<lparr>sd_engineers = [fetched_engineer ''e1'',
       \<lparr>typed = (sample_engineer ''e1'')\<lparr>eng_name := ''Bob''\<rparr>,
        json = ''{id:e1,name:Bob,email:ada@example.com}''\<rparr>],
     sd_projects = [], sd_assignments = []\<rparr>"

definition duplicate_net :: "responses settled" where
  "duplicate_net =
     Resolved (Http True (sd_engineers duplicate_snapshot @ [fetched_engineer ''e9'']),
               Http True [], Http True [])"

definition duplicate_world :: world where
  "duplicate_world = session_world\<lparr>lastSyncData := Some duplicate_snapshot\<rparr>"

section \<open>Properties of the event bus\<close>

lemma listener_errors_Nil [simp]: "listener_errors label ev [] = []"
  by (simp add: listener_errors_def)

subsection \<open>A dispatch touches nothing but the bus\<close>

lemma bus_only_refl [simp]: "bus_only w w"
  by (simp add: bus_only_def)

lemma bus_only_trans: "bus_only w w' \<Longrightarrow> bus_only w' w'' \<Longrightarrow> bus_only w w''"
  by (simp add: bus_only_def)

lemma bus_only_subscribe: "bus_only w (subscribe w ty l)"
  by (simp add: bus_only_def subscribe_def Let_def split: option.splits)

lemma bus_only_unsubscribe: "bus_only w (unsubscribe w ty n)"
  by (simp add: bus_only_def unsubscribe_def Let_def split: option.splits)

lemma bus_only_bus_step: "bus_only (bus s) (bus (bus_step key s c))"
proof (cases c)
  case (CallSubscribe k n b)
  then show ?thesis
    using bus_only_subscribe [of "bus s" k "Listener n (\<lambda>ev. []) b"]
    by (auto simp: Let_def)
next
  case (CallUnsubscribe k n)
  then show ?thesis
    using bus_only_unsubscribe [of "bus s" k n] by (auto simp: Let_def)
qed

lemma bus_only_bus_steps: "bus_only (bus s) (bus (foldl (bus_step key) s cs))"
proof (induction cs arbitrary: s)
  case Nil
  show ?case by simp
next
  case (Cons c cs)
  have "bus_only (bus s) (bus (bus_step key s c))"
    by (rule bus_only_bus_step)
  moreover have "bus_only (bus (bus_step key s c)) (bus (foldl (bus_step key) (bus_step key s c) cs))"
    by (rule Cons.IH)
  ultimately show ?case
    by (simp add: bus_only_trans)
qed

lemma bus_only_call_listener: "bus_only (bus s) (bus (call_listener label ev key l s))"
proof -
  let ?s0 = "s\<lparr>bus := (bus s)\<lparr>delivered := delivered (bus s) @ [(lid l, ev)]\<rparr>\<rparr>"
  have "bus_only (bus s) (bus ?s0)"
    by (simp add: bus_only_def)
  moreover have "bus_only (bus ?s0) (bus (foldl (bus_step key) ?s0 (calls l ev)))"
    by (rule bus_only_bus_steps)
  ultimately have "bus_only (bus s) (bus (foldl (bus_step key) ?s0 (calls l ev)))"
    by (rule bus_only_trans)
  then show ?thesis
    by (cases "behaviour l ev") (simp_all add: call_listener_def Let_def bus_only_def)
qed

lemma forEach_Nil: "remaining s = [] \<Longrightarrow> forEach label ev key s = bus s"
  by (subst forEach.simps) simp

lemma forEach_Cons:
  "remaining s = l # rest \<Longrightarrow>
   forEach label ev key s = forEach label ev key (call_listener label ev key l (s\<lparr>remaining := rest\<rparr>))"
  by (subst forEach.simps) simp

lemma bus_only_forEach: "bus_only (bus s) (forEach label ev key s)"
proof (induction label ev key s rule: forEach.induct)
  case (1 label ev key s)
  show ?case
  proof (cases "remaining s")
    case Nil
    then show ?thesis by (simp add: forEach_Nil)
  next
    case (Cons l rest)
    let ?s1 = "call_listener label ev key l (s\<lparr>remaining := rest\<rparr>)"
    have "bus_only (bus (s\<lparr>remaining := rest\<rparr>)) (bus ?s1)"
      by (rule bus_only_call_listener)
    moreover have "bus_only (bus ?s1) (forEach label ev key ?s1)"
      using Cons by (rule "1.IH")
    ultimately have "bus_only (bus s) (forEach label ev key ?s1)"
      using bus_only_trans by fastforce
    with Cons show ?thesis by (simp add: forEach_Cons)
  qed
qed

lemma bus_only_notify: "bus_only w (notify label ev key w)"
proof (cases "map_get (listeners w) key")
  case None
  then show ?thesis by (simp add: notify_def)
next
  case (Some ls)
  then show ?thesis
    using bus_only_forEach [of "\<lparr>remaining = ls, attached = True, bus = w\<rparr>" label ev key]
    by (simp add: notify_def)
qed

lemma bus_only_emit_enabled:
  "enableBroadcast opts \<Longrightarrow>
   bus_only (w\<lparr>emitted := emitted w @ [make_event (clock w) ty p src]\<rparr>) (emit opts w ty p src)"
proof -
  assume on: "enableBroadcast opts"
  let ?ev = "make_event (clock w) ty p src"
  let ?w1 = "w\<lparr>emitted := emitted w @ [?ev]\<rparr>"
  let ?w2 = "notify ''Error in realtime event listener: '' ?ev ty ?w1"
  have "bus_only ?w1 ?w2" by (rule bus_only_notify)
  moreover have "bus_only ?w2 (notify ''Error in global realtime event listener: '' ?ev ''*'' ?w2)"
    by (rule bus_only_notify)
  ultimately have "bus_only ?w1 (notify ''Error in global realtime event listener: '' ?ev ''*'' ?w2)"
    by (rule bus_only_trans)
  with on show ?thesis
    by (simp add: emit_def Let_def make_event_def)
qed

lemma emit_disabled: "\<not> enableBroadcast opts \<Longrightarrow> emit opts w ty p src = w"
  by (simp add: emit_def)

lemma emit_frame [simp]:
  "app (emit opts w ty p src) = app w"
  "pendingUpdates (emit opts w ty p src) = pendingUpdates w"
  "lastSync (emit opts w ty p src) = lastSync w"
  "isOnline (emit opts w ty p src) = isOnline w"
  "lastSyncData (emit opts w ty p src) = lastSyncData w"
  "clock (emit opts w ty p src) = clock w"
  "timers (emit opts w ty p src) = timers w"
  "reverts_run (emit opts w ty p src) = reverts_run w"
  using bus_only_emit_enabled [of opts w ty p src] emit_disabled [of opts w ty p src]
  by (cases "enableBroadcast opts"; simp add: bus_only_def)+

lemma emitted_emit:
  "emitted (emit opts w ty p src) =
     emitted w @ (if enableBroadcast opts then [make_event (clock w) ty p src] else [])"
  using bus_only_emit_enabled [of opts w ty p src] emit_disabled [of opts w ty p src]
  by (cases "enableBroadcast opts"; simp add: bus_only_def)

lemma tracker_state_emit [simp]: "tracker_state (emit opts w ty p src) = tracker_state w"
  by (simp add: tracker_state_def)

text \<open>A hook nobody has subscribed to: \<open>emit\<close> builds the event and calls nobody.\<close>

lemma emit_no_listeners:
  "listeners w = [] \<Longrightarrow>
   emit opts w ty p src =
     (if enableBroadcast opts then w\<lparr>emitted := emitted w @ [make_event (clock w) ty p src]\<rparr>
      else w)"
  by (simp add: emit_def notify_def map_get_def Let_def make_event_def)

subsection \<open>Listeners that only return or throw\<close>



lemma listeners_for_frame [simp]:
  "listeners_for (w\<lparr>delivered := d\<rparr>) key = listeners_for w key"
  "listeners_for (w\<lparr>console := c\<rparr>) key = listeners_for w key"
  "listeners_for (w\<lparr>emitted := e\<rparr>) key = listeners_for w key"
  by (simp_all add: listeners_for_def)












section \<open>Properties of the optimistic update tracker\<close>

subsection \<open>The \<open>Map\<close> of pending entries\<close>

lemma map_of_map_set: "map_of (map_set m k v) = (map_of m)(k \<mapsto> v)"
  by (induction m) (auto simp: fun_eq_iff)

lemma map_get_map_set: "map_get (map_set m k v) k' = (if k' = k then Some v else map_get m k')"
  by (simp add: map_get_def map_of_map_set)

lemma map_of_map_delete: "map_of (map_delete m k) k' = (if k' = k then None else map_of m k')"
  by (induction m) (auto simp: map_delete_def)

lemma map_get_map_delete: "map_get (map_delete m k) k' = (if k' = k then None else map_get m k')"
  by (simp add: map_get_def map_of_map_delete)

lemma map_has_get: "map_has m k = (map_get m k \<noteq> None)"
  by (simp add: map_has_def map_get_def)

lemma keys_map_set: "set (map fst (map_set m k v)) = insert k (set (map fst m))"
proof (induction m)
  case Nil
  show ?case by simp
next
  case (Cons kv m)
  obtain a b where kv: "kv = (a, b)" by (cases kv)
  show ?case
  proof (cases "a = k")
    case True
    with kv show ?thesis by simp
  next
    case False
    with kv Cons show ?thesis by (simp add: insert_commute)
  qed
qed

lemma distinct_map_set: "distinct (map fst m) \<Longrightarrow> distinct (map fst (map_set m k v))"
proof (induction m)
  case Nil
  show ?case by simp
next
  case (Cons kv m)
  have "set (map fst (map_set m k v)) = insert k (set (map fst m))"
    by (rule keys_map_set)
  with Cons show ?case
    by (cases kv) auto
qed

lemma distinct_map_delete: "distinct (map fst m) \<Longrightarrow> distinct (map fst (map_delete m k))"
  by (simp add: map_delete_def distinct_map_filter)

lemma length_map_set: "map_has m k \<Longrightarrow> length (map_set m k v) = length m"
  by (induction m) (auto simp: map_has_def)

subsection \<open>Effects of the three operations\<close>

lemma pending_add:
  "pendingUpdates (addOptimisticUpdate opts w i ty d r) =
     map_set (pendingUpdates w) i
       \<lparr>upd_id = i, upd_type = ty, upd_data = d, upd_timestamp = clock w, revert = r\<rparr>"
  by (simp add: addOptimisticUpdate_def Let_def)

lemma timers_add:
  "timers (addOptimisticUpdate opts w i ty d r) = timers w @ [(clock w + 10000, i)]"
  by (simp add: addOptimisticUpdate_def Let_def)

lemma add_frame [simp]:
  "app (addOptimisticUpdate opts w i ty d r) = app w"
  "lastSync (addOptimisticUpdate opts w i ty d r) = lastSync w"
  "isOnline (addOptimisticUpdate opts w i ty d r) = isOnline w"
  "lastSyncData (addOptimisticUpdate opts w i ty d r) = lastSyncData w"
  "clock (addOptimisticUpdate opts w i ty d r) = clock w"
  "reverts_run (addOptimisticUpdate opts w i ty d r) = reverts_run w"
  by (simp_all add: addOptimisticUpdate_def Let_def)

lemma emitted_add:
  "emitted (addOptimisticUpdate opts w i ty d r) =
     emitted w @ (if enableBroadcast opts
                  then [make_event (clock w) (''optimistic:'' @ ty) (PTracked i d) Local]
                  else [])"
  by (simp add: addOptimisticUpdate_def Let_def emitted_emit make_event_def)

lemma pending_confirm:
  "pendingUpdates (confirmOptimisticUpdate opts w i) = map_delete (pendingUpdates w) i"
proof (cases "map_get (pendingUpdates w) i")
  case None
  then have "map_of (pendingUpdates w) i = None" by (simp add: map_get_def)
  then have "i \<notin> fst ` set (pendingUpdates w)" by (simp add: map_of_eq_None_iff)
  then have "map_delete (pendingUpdates w) i = pendingUpdates w"
    by (auto simp: map_delete_def filter_id_conv)
  with None show ?thesis by (simp add: confirmOptimisticUpdate_def)
next
  case (Some u)
  then show ?thesis by (simp add: confirmOptimisticUpdate_def)
qed

lemma confirm_absent:
  "map_get (pendingUpdates w) i = None \<Longrightarrow> confirmOptimisticUpdate opts w i = w"
  by (simp add: confirmOptimisticUpdate_def)

lemma revert_absent:
  "map_get (pendingUpdates w) i = None \<Longrightarrow> revertOptimisticUpdate opts w i = Returns w"
  by (simp add: revertOptimisticUpdate_def)

lemma timeout_absent:
  "map_get (pendingUpdates w) i = None \<Longrightarrow> timeoutCallback opts w i = Returns w"
  by (simp add: timeoutCallback_def map_has_get)

lemma revert_throws:
  assumes "map_get (pendingUpdates w) i = Some u" and "revert u = Some f"
    and "f (app w) = Inl e"
  shows "revertOptimisticUpdate opts w i = Throws e (w\<lparr>reverts_run := reverts_run w @ [i]\<rparr>)"
  using assms by (simp add: revertOptimisticUpdate_def Let_def)

lemma revert_returns:
  assumes "map_get (pendingUpdates w) i = Some u" and "compensate_returns u (app w)"
  shows "\<exists>w'. revertOptimisticUpdate opts w i = Returns w'
           \<and> pendingUpdates w' = map_delete (pendingUpdates w) i
           \<and> timers w' = timers w
           \<and> reverts_run w' = reverts_run w @ (case revert u of None \<Rightarrow> [] | Some f \<Rightarrow> [i])
           \<and> emitted w' = emitted w @
                (if enableBroadcast opts
                 then [make_event (clock w) (''reverted:'' @ upd_type u)
                         (PTracked i (upd_data u)) Local]
                 else [])"
proof (cases "revert u")
  case None
  with assms show ?thesis
    by (simp add: revertOptimisticUpdate_def Let_def emitted_emit make_event_def)
next
  case (Some f)
  with assms obtain st where "f (app w) = Inr st"
    by (auto simp: compensate_returns_def split: sum.splits)
  with Some assms show ?thesis
    by (simp add: revertOptimisticUpdate_def Let_def emitted_emit make_event_def)
qed

subsection \<open>Ids stay unique along every run\<close>

lemma pending_revert_distinct:
  "distinct (map fst (pendingUpdates w)) \<Longrightarrow>
   distinct (map fst (pendingUpdates (state_of (revertOptimisticUpdate opts w i))))"
  by (auto simp: revertOptimisticUpdate_def Let_def distinct_map_delete
           split: option.splits sum.splits)

lemma pending_timeout_distinct:
  "distinct (map fst (pendingUpdates w)) \<Longrightarrow>
   distinct (map fst (pendingUpdates (state_of (timeoutCallback opts w i))))"
  using pending_revert_distinct
          [of "w\<lparr>console := console w @ [''Optimistic update '' @ i @ '' timed out'']\<rparr>" opts i]
  by (simp add: timeoutCallback_def)

lemma pending_fire_distinct:
  "distinct (map fst (pendingUpdates w)) \<Longrightarrow>
   distinct (map fst (pendingUpdates (state_of (fireTimer opts w t))))"
  using pending_timeout_distinct [of "w\<lparr>timers := remove1 t (timers w)\<rparr>" opts "snd t"]
  by (simp add: fireTimer_def)

lemma pending_subscribe: "pendingUpdates (subscribe w ty l) = pendingUpdates w"
  by (simp add: subscribe_def Let_def split: option.splits)

lemma pending_unsubscribe: "pendingUpdates (unsubscribe w ty l) = pendingUpdates w"
  by (simp add: unsubscribe_def Let_def split: option.splits)

lemma step_distinct:
  "distinct (map fst (pendingUpdates w)) \<Longrightarrow> distinct (map fst (pendingUpdates (step opts w op)))"
  by (cases op)
     (simp_all add: pending_add distinct_map_set pending_confirm distinct_map_delete
        pending_revert_distinct pending_fire_distinct pending_subscribe pending_unsubscribe
        advance_def)

lemma run_distinct:
  "distinct (map fst (pendingUpdates w)) \<Longrightarrow> distinct (map fst (pendingUpdates (run opts w ops)))"
  unfolding run_def
  by (induction ops arbitrary: w) (simp_all add: step_distinct)

text \<open>
  Claim C2, as amended. \<open>addOptimisticUpdate(id, kind, data, compensate?)\<close> never throws
  and has no check for an id that is already present: the entry stored under the id
  afterwards is always the new registration (kind, data, registration time and
  compensating action), one more expiry is scheduled 10000 ms ahead, and, when
  broadcasting is enabled, one \<open>optimistic:<kind>\<close> event is emitted. When the id was
  present, the new registration takes the place of the old one, so the number of entries
  does not change. Along every sequence of operations on a freshly mounted hook, no two
  entries of the tracker share an id.
\<close>

theorem addOptimisticUpdate_replaces_entry:
  "map_get (pendingUpdates (addOptimisticUpdate opts w i ty d r)) i =
     Some \<lparr>upd_id = i, upd_type = ty, upd_data = d, upd_timestamp = clock w, revert = r\<rparr>
   \<and> timers (addOptimisticUpdate opts w i ty d r) = timers w @ [(clock w + 10000, i)]
   \<and> emitted (addOptimisticUpdate opts w i ty d r) =
       emitted w @ (if enableBroadcast opts
                    then [make_event (clock w) (''optimistic:'' @ ty) (PTracked i d) Local]
                    else [])
   \<and> (map_has (pendingUpdates w) i \<longrightarrow>
        length (pendingUpdates (addOptimisticUpdate opts w i ty d r)) = length (pendingUpdates w))
   \<and> distinct (map fst (pendingUpdates (run opts (initial_world t online) ops)))"
proof -
  have "distinct (map fst (pendingUpdates (initial_world t online)))"
    by (simp add: initial_world_def)
  then have "distinct (map fst (pendingUpdates (run opts (initial_world t online) ops)))"
    by (rule run_distinct)
  then show ?thesis
    by (simp add: pending_add map_get_map_set timers_add emitted_add length_map_set)
qed

text \<open>Registering \<open>u1\<close> a second time: the id is present, and the tracker still has one entry.\<close>

theorem addOptimisticUpdate_replaces_entry_witness:
  "map_has (pendingUpdates (advance readd_first 5000)) ''u1''
   \<and> length (pendingUpdates readd_second) = length (pendingUpdates (advance readd_first 5000))"
  using addOptimisticUpdate_replaces_entry
          [of default_options "advance readd_first 5000" "''u1''" "''project:add''"
              "DRemoved ''second''" None 0 True "[]"]
  by (simp add: readd_second_def readd_first_def mounted_def initial_world_def advance_def
        default_options_def pending_add map_has_def)

text \<open>
  Claim C2 as stated fails: registering the id \<open>u1\<close> again while its entry is present is
  not a no-op. The stored entry changes, a second expiry is scheduled, and one more event
  is emitted.
\<close>

theorem add_existing_id_counterexample:
  "map_has (pendingUpdates (advance readd_first 5000)) ''u1''
   \<and> map_get (pendingUpdates readd_second) ''u1''
       \<noteq> map_get (pendingUpdates (advance readd_first 5000)) ''u1''
   \<and> timers readd_second = [(10000, ''u1''), (15000, ''u1'')]
   \<and> length (emitted readd_second) = Suc (length (emitted (advance readd_first 5000)))"
  by (simp add: readd_second_def readd_first_def mounted_def initial_world_def advance_def
        default_options_def pending_add timers_add emitted_add map_has_def map_get_def)

text \<open>
  Claim C5, as amended. Registration schedules the expiry of an id 10000 ms ahead. When
  a scheduled expiry for an id is due and the tracker holds an entry for that id whose
  compensating action is absent or returns normally, firing it reverts that entry once:
  the call returns, the compensating action (if any) has run exactly once, the entry is
  gone, the timer is consumed, and (with broadcasting enabled) exactly one
  \<open>reverted:<kind>\<close> event is emitted. From then on a confirm, a revert and the callback
  of any further expiry for that id leave the whole state as it is. The entry that is
  reverted is the one present when the timer fires, which after a second registration
  of the id is the later one.
\<close>

theorem expiry_reverts_present_entry_once:
  assumes present: "map_get (pendingUpdates w) i = Some u"
    and scheduled: "(t, i) \<in> set (timers w)"
    and due: "t \<le> clock w"
    and returns: "compensate_returns u (app w)"
  shows "timers (addOptimisticUpdate opts v i ty d r) = timers v @ [(clock v + 10000, i)]
    \<and> (\<exists>w'. fireTimer opts w (t, i) = Returns w'
          \<and> \<not> map_has (pendingUpdates w') i
          \<and> timers w' = remove1 (t, i) (timers w)
          \<and> reverts_run w' = reverts_run w @ (case revert u of None \<Rightarrow> [] | Some f \<Rightarrow> [i])
          \<and> emitted w' = emitted w @
               (if enableBroadcast opts
                then [make_event (clock w) (''reverted:'' @ upd_type u)
                        (PTracked i (upd_data u)) Local]
                else [])
          \<and> confirmOptimisticUpdate opts w' i = w'
          \<and> revertOptimisticUpdate opts w' i = Returns w'
          \<and> timeoutCallback opts w' i = Returns w')"
proof -
  let ?v = "w\<lparr>timers := remove1 (t, i) (timers w),
               console := console w @ [''Optimistic update '' @ i @ '' timed out'']\<rparr>"
  have fire: "fireTimer opts w (t, i) = revertOptimisticUpdate opts ?v i"
    using present scheduled due by (simp add: fireTimer_def timeoutCallback_def map_has_get)
  have "map_get (pendingUpdates ?v) i = Some u" and "compensate_returns u (app ?v)"
    using present returns by simp_all
  from revert_returns [OF this, of opts]
  obtain w' where w': "revertOptimisticUpdate opts ?v i = Returns w'"
    "pendingUpdates w' = map_delete (pendingUpdates ?v) i"
    "timers w' = timers ?v"
    "reverts_run w' = reverts_run ?v @ (case revert u of None \<Rightarrow> [] | Some f \<Rightarrow> [i])"
    "emitted w' = emitted ?v @
       (if enableBroadcast opts
        then [make_event (clock ?v) (''reverted:'' @ upd_type u) (PTracked i (upd_data u)) Local]
        else [])"
    by blast
  have gone: "map_get (pendingUpdates w') i = None"
    by (simp add: w'(2) map_get_map_delete)
  have "\<not> map_has (pendingUpdates w') i"
    using gone by (simp add: map_has_get)
  moreover have "confirmOptimisticUpdate opts w' i = w'"
    "revertOptimisticUpdate opts w' i = Returns w'" "timeoutCallback opts w' i = Returns w'"
    using gone by (simp_all add: confirm_absent revert_absent timeout_absent)
  ultimately show ?thesis
    using fire w' by (simp add: timers_add)
qed

text \<open>An entry registered at time 0 with a compensating action that returns, at time 10000.\<close>

theorem expiry_reverts_present_entry_once_witness:
  "map_get (pendingUpdates expiring_entry) ''u1''
     = Some \<lparr>upd_id = ''u1'', upd_type = ''engineer:add'', upd_data = DRemoved ''x'',
            upd_timestamp = 0, revert = Some keep_store\<rparr>
   \<and> (10000, ''u1'') \<in> set (timers expiring_entry)
   \<and> 10000 \<le> clock expiring_entry
   \<and> compensate_returns \<lparr>upd_id = ''u1'', upd_type = ''engineer:add'', upd_data = DRemoved ''x'',
            upd_timestamp = 0, revert = Some keep_store\<rparr> (app expiring_entry)
   \<and> (\<exists>w'. fireTimer default_options expiring_entry (10000, ''u1'') = Returns w'
          \<and> \<not> map_has (pendingUpdates w') ''u1''
          \<and> reverts_run w' = [''u1'']
          \<and> revertOptimisticUpdate default_options w' ''u1'' = Returns w')"
proof -
  let ?u = "\<lparr>upd_id = ''u1'', upd_type = ''engineer:add'', upd_data = DRemoved ''x'',
            upd_timestamp = 0, revert = Some keep_store\<rparr>"
  have h: "map_get (pendingUpdates expiring_entry) ''u1'' = Some ?u"
    "(10000, ''u1'') \<in> set (timers expiring_entry)"
    "10000 \<le> clock expiring_entry"
    "compensate_returns ?u (app expiring_entry)"
    by (simp_all add: expiring_entry_def mounted_def initial_world_def advance_def
          default_options_def pending_add timers_add map_get_def compensate_returns_def
          keep_store_def)
  have r: "reverts_run expiring_entry = []"
    by (simp add: expiring_entry_def mounted_def initial_world_def advance_def)
  show ?thesis
    using h r expiry_reverts_present_entry_once
                [OF h, where opts = default_options and v = mounted and ty = "''engineer:add''"
                   and d = "DRemoved ''x''" and r = None]
    by auto
qed

lemma stuck_fire:
  "fireTimer default_options stuck_entry (10000, ''u1'') =
     Throws (Error ''compensation failed'')
       (stuck_entry\<lparr>timers := [],
          console := [''Optimistic update u1 timed out''], reverts_run := [''u1'']\<rparr>)"
  by (simp add: stuck_entry_def mounted_def initial_world_def advance_def default_options_def
        addOptimisticUpdate_def emit_def notify_def Let_def fireTimer_def timeoutCallback_def map_has_def
        revertOptimisticUpdate_def map_get_def failing_compensate_def listeners_for_def)

text \<open>
  Claim C5 as stated fails in two ways. An entry whose compensating action throws is
  still pending after its expiry has fired, and a later manual revert is no no-op: it
  runs the compensating action a second time. And an entry whose id is registered again
  at 5000 ms is neither confirmed nor reverted, yet its compensating action never runs:
  at 10000 ms the first timer reverts the second registration, which is 5000 ms old.
\<close>

theorem expiry_counterexample:
  "has_thrown (fireTimer default_options stuck_entry (10000, ''u1''))
   \<and> map_has (pendingUpdates (state_of (fireTimer default_options stuck_entry (10000, ''u1''))))
       ''u1''
   \<and> reverts_run (state_of (revertOptimisticUpdate default_options
        (state_of (fireTimer default_options stuck_entry (10000, ''u1''))) ''u1''))
       = [''u1'', ''u1'']
   \<and> clock replaced_entry = 10000
   \<and> map ev_type (emitted (state_of (fireTimer default_options replaced_entry (10000, ''u1''))))
       = [''optimistic:engineer:add'', ''optimistic:project:add'', ''reverted:project:add'']
   \<and> reverts_run (state_of (fireTimer default_options replaced_entry (10000, ''u1''))) = []"
proof -
  have "reverts_run (state_of (fireTimer default_options replaced_entry (10000, ''u1''))) = []"
    "map ev_type (emitted (state_of (fireTimer default_options replaced_entry (10000, ''u1''))))
       = [''optimistic:engineer:add'', ''optimistic:project:add'', ''reverted:project:add'']"
    "clock replaced_entry = 10000"
    by (simp_all add: replaced_entry_def mounted_def initial_world_def advance_def
          default_options_def addOptimisticUpdate_def emit_def notify_def Let_def fireTimer_def
          timeoutCallback_def map_has_def revertOptimisticUpdate_def map_get_def
          listeners_for_def make_event_def map_delete_def)
  moreover have "reverts_run (state_of (revertOptimisticUpdate default_options
        (state_of (fireTimer default_options stuck_entry (10000, ''u1''))) ''u1''))
       = [''u1'', ''u1'']"
    "map_has (pendingUpdates (state_of (fireTimer default_options stuck_entry (10000, ''u1''))))
       ''u1''"
    unfolding stuck_fire
    by (simp_all add: stuck_entry_def mounted_def initial_world_def advance_def
          default_options_def addOptimisticUpdate_def emit_def notify_def Let_def map_has_def
          revertOptimisticUpdate_def map_get_def failing_compensate_def listeners_for_def)
  ultimately show ?thesis
    by (simp add: stuck_fire)
qed

text \<open>
  Claim C6, as amended. \<open>revertOptimisticUpdate(id)\<close> calls the compensating action
  outside any \<open>try\<close>. For a present entry whose compensating action throws, the thrown
  value reaches the caller; the only effect is that the action was called. The entry
  stays in the tracker, no \<open>reverted:<kind>\<close> event is emitted and nothing is logged.
\<close>

theorem revert_throwing_compensate_propagates:
  assumes "map_get (pendingUpdates w) i = Some u" and "revert u = Some f"
    and "f (app w) = Inl e"
  shows "revertOptimisticUpdate opts w i = Throws e (w\<lparr>reverts_run := reverts_run w @ [i]\<rparr>)
    \<and> map_has (pendingUpdates (state_of (revertOptimisticUpdate opts w i))) i
    \<and> emitted (state_of (revertOptimisticUpdate opts w i)) = emitted w
    \<and> console (state_of (revertOptimisticUpdate opts w i)) = console w"
  using assms by (simp add: revert_throws map_has_get)

theorem revert_throwing_compensate_propagates_witness:
  "map_get (pendingUpdates failing_entry) ''u1''
     = Some \<lparr>upd_id = ''u1'', upd_type = ''engineer:add'', upd_data = DRemoved ''x'',
            upd_timestamp = 0, revert = Some failing_compensate\<rparr>
   \<and> failing_compensate (app failing_entry) = Inl (Error ''compensation failed'')
   \<and> revertOptimisticUpdate default_options failing_entry ''u1''
       = Throws (Error ''compensation failed'')
           (failing_entry\<lparr>reverts_run := reverts_run failing_entry @ [''u1'']\<rparr>)"
proof -
  let ?u = "\<lparr>upd_id = ''u1'', upd_type = ''engineer:add'', upd_data = DRemoved ''x'',
            upd_timestamp = 0, revert = Some failing_compensate\<rparr>"
  have h: "map_get (pendingUpdates failing_entry) ''u1'' = Some ?u"
    "revert ?u = Some failing_compensate"
    "failing_compensate (app failing_entry) = Inl (Error ''compensation failed'')"
    by (simp_all add: failing_entry_def mounted_def initial_world_def default_options_def
          pending_add map_get_def failing_compensate_def)
  show ?thesis
    using h revert_throwing_compensate_propagates [OF h, of default_options]
    by simp
qed

text \<open>
  Claim C6 as stated fails: reverting an entry whose compensating action throws makes
  \<open>revertOptimisticUpdate\<close> throw, the entry is still pending afterwards, the only event
  emitted so far is the one of its registration, and the console is empty.
\<close>

theorem revert_throwing_compensate_counterexample:
  "has_thrown (revertOptimisticUpdate default_options failing_entry ''u1'')
   \<and> map_has (pendingUpdates (state_of (revertOptimisticUpdate default_options failing_entry
        ''u1''))) ''u1''
   \<and> map ev_type (emitted (state_of (revertOptimisticUpdate default_options failing_entry
        ''u1''))) = [''optimistic:engineer:add'']
   \<and> console (state_of (revertOptimisticUpdate default_options failing_entry ''u1'')) = []"
  by (simp add: failing_entry_def mounted_def initial_world_def default_options_def
        addOptimisticUpdate_def emit_def notify_def Let_def map_has_def revertOptimisticUpdate_def
        map_get_def failing_compensate_def listeners_for_def make_event_def)

subsection \<open>A hook built with \<open>enableBroadcast: false\<close>\<close>

lemma tracker_state_add:
  "tracker_state (addOptimisticUpdate opts w i ty d r) =
     (map_set (pendingUpdates w) i
        \<lparr>upd_id = i, upd_type = ty, upd_data = d, upd_timestamp = clock w, revert = r\<rparr>,
      timers w @ [(clock w + 10000, i)], app w, reverts_run w)"
  by (simp add: tracker_state_def pending_add timers_add)

lemma tracker_state_confirm:
  "tracker_state (confirmOptimisticUpdate opts w i) =
     (map_delete (pendingUpdates w) i, timers w, app w, reverts_run w)"
  by (simp add: tracker_state_def pending_confirm)
     (simp add: confirmOptimisticUpdate_def split: option.splits)

lemma revert_broadcast_independent:
  "tracker_state (state_of (revertOptimisticUpdate opts w i)) =
     tracker_state (state_of (revertOptimisticUpdate opts' w i))
   \<and> has_thrown (revertOptimisticUpdate opts w i) = has_thrown (revertOptimisticUpdate opts' w i)"
  by (simp add: revertOptimisticUpdate_def Let_def tracker_state_def
           split: option.splits sum.splits)

lemma map_delete_absent: "map_get m k = None \<Longrightarrow> map_delete m k = m"
proof -
  assume "map_get m k = None"
  then have "k \<notin> fst ` set m"
    by (simp add: map_get_def map_of_eq_None_iff)
  then show ?thesis
    by (auto simp: map_delete_def filter_id_conv)
qed

lemma add_disabled:
  "\<not> enableBroadcast opts \<Longrightarrow>
   addOptimisticUpdate opts w i ty d r =
     w\<lparr>pendingUpdates := map_set (pendingUpdates w) i
          \<lparr>upd_id = i, upd_type = ty, upd_data = d, upd_timestamp = clock w, revert = r\<rparr>,
       timers := timers w @ [(clock w + 10000, i)]\<rparr>"
  by (simp add: addOptimisticUpdate_def Let_def emit_disabled)

lemma confirm_disabled:
  "\<not> enableBroadcast opts \<Longrightarrow>
   confirmOptimisticUpdate opts w i = w\<lparr>pendingUpdates := map_delete (pendingUpdates w) i\<rparr>"
  by (cases "map_get (pendingUpdates w) i")
     (simp_all add: confirmOptimisticUpdate_def emit_disabled map_delete_absent)

lemma revert_disabled:
  "\<not> enableBroadcast opts \<Longrightarrow>
   revertOptimisticUpdate opts w i =
     (case map_get (pendingUpdates w) i of
        None \<Rightarrow> Returns w
      | Some u \<Rightarrow>
          (case revert u of
             None \<Rightarrow> Returns (w\<lparr>pendingUpdates := map_delete (pendingUpdates w) i\<rparr>)
           | Some f \<Rightarrow>
               (case f (app w) of
                  Inl e \<Rightarrow> Throws e (w\<lparr>reverts_run := reverts_run w @ [i]\<rparr>)
                | Inr st \<Rightarrow>
                    Returns (w\<lparr>app := st,
                               pendingUpdates := map_delete (pendingUpdates w) i,
                               reverts_run := reverts_run w @ [i]\<rparr>))))"
  by (simp add: revertOptimisticUpdate_def Let_def emit_disabled
           split: option.splits sum.splits)

text \<open>
  Claim C10. For a hook built with \<open>enableBroadcast: false\<close>, \<open>emit\<close> does nothing at all
  for every type and payload: no event is built, no listener of the type or of \<open>*\<close> is
  called. The three operations of the tracker still do their work, and nothing else:
  \<open>addOptimisticUpdate\<close> stores the registration under the id and schedules its expiry
  10000 ms ahead; \<open>confirmOptimisticUpdate\<close> removes the entry; \<open>revertOptimisticUpdate\<close>
  on a present entry runs the compensating action on the store and removes the entry, or
  throws what the compensating action throws and keeps the entry. What they leave in the
  entries, the expiries, the store and the compensations run, and whether they throw, is
  what the same call leaves with broadcasting enabled; only the events (\<open>optimistic:\<close>,
  \<open>confirmed:\<close>, \<open>reverted:\<close>) and the listener calls are missing. The network handlers
  still record the connectivity and emit no \<open>network:\<close> event.
\<close>

theorem broadcast_disabled_suppresses_events_only:
  "emit (opts\<lparr>enableBroadcast := False\<rparr>) w ty p src = w
   \<and> addOptimisticUpdate (opts\<lparr>enableBroadcast := False\<rparr>) w i ty d r =
       w\<lparr>pendingUpdates := map_set (pendingUpdates w) i
            \<lparr>upd_id = i, upd_type = ty, upd_data = d, upd_timestamp = clock w, revert = r\<rparr>,
         timers := timers w @ [(clock w + 10000, i)]\<rparr>
   \<and> confirmOptimisticUpdate (opts\<lparr>enableBroadcast := False\<rparr>) w i =
       w\<lparr>pendingUpdates := map_delete (pendingUpdates w) i\<rparr>
   \<and> revertOptimisticUpdate (opts\<lparr>enableBroadcast := False\<rparr>) w i =
       (case map_get (pendingUpdates w) i of
          None \<Rightarrow> Returns w
        | Some u \<Rightarrow>
            (case revert u of
               None \<Rightarrow> Returns (w\<lparr>pendingUpdates := map_delete (pendingUpdates w) i\<rparr>)
             | Some f \<Rightarrow>
                 (case f (app w) of
                    Inl e \<Rightarrow> Throws e (w\<lparr>reverts_run := reverts_run w @ [i]\<rparr>)
                  | Inr st \<Rightarrow>
                      Returns (w\<lparr>app := st,
                                 pendingUpdates := map_delete (pendingUpdates w) i,
                                 reverts_run := reverts_run w @ [i]\<rparr>))))
   \<and> tracker_state (addOptimisticUpdate (opts\<lparr>enableBroadcast := False\<rparr>) w i ty d r)
       = tracker_state (addOptimisticUpdate (opts\<lparr>enableBroadcast := True\<rparr>) w i ty d r)
   \<and> tracker_state (confirmOptimisticUpdate (opts\<lparr>enableBroadcast := False\<rparr>) w i)
       = tracker_state (confirmOptimisticUpdate (opts\<lparr>enableBroadcast := True\<rparr>) w i)
   \<and> tracker_state (state_of (revertOptimisticUpdate (opts\<lparr>enableBroadcast := False\<rparr>) w i))
       = tracker_state (state_of (revertOptimisticUpdate (opts\<lparr>enableBroadcast := True\<rparr>) w i))
   \<and> has_thrown (revertOptimisticUpdate (opts\<lparr>enableBroadcast := False\<rparr>) w i)
       = has_thrown (revertOptimisticUpdate (opts\<lparr>enableBroadcast := True\<rparr>) w i)
   \<and> emitted (addOptimisticUpdate (opts\<lparr>enableBroadcast := False\<rparr>) w i ty d r) = emitted w
   \<and> delivered (addOptimisticUpdate (opts\<lparr>enableBroadcast := False\<rparr>) w i ty d r) = delivered w
   \<and> emitted (confirmOptimisticUpdate (opts\<lparr>enableBroadcast := False\<rparr>) w i) = emitted w
   \<and> delivered (confirmOptimisticUpdate (opts\<lparr>enableBroadcast := False\<rparr>) w i) = delivered w
   \<and> emitted (state_of (revertOptimisticUpdate (opts\<lparr>enableBroadcast := False\<rparr>) w i))
       = emitted w
   \<and> delivered (state_of (revertOptimisticUpdate (opts\<lparr>enableBroadcast := False\<rparr>) w i))
       = delivered w
   \<and> handleOnline (opts\<lparr>enableBroadcast := False\<rparr>) w = w\<lparr>isOnline := True\<rparr>
   \<and> handleOffline (opts\<lparr>enableBroadcast := False\<rparr>) w = w\<lparr>isOnline := False\<rparr>"
proof -
  let ?off = "opts\<lparr>enableBroadcast := False\<rparr>" and ?on = "opts\<lparr>enableBroadcast := True\<rparr>"
  have off: "\<not> enableBroadcast ?off" by simp
  have e: "emit ?off w ty p src = w"
    using off by (rule emit_disabled)
  note a = add_disabled [OF off, of w i ty d r]
  note c = confirm_disabled [OF off, of w i]
  note r = revert_disabled [OF off, of w i]
  have a': "emitted (addOptimisticUpdate ?off w i ty d r) = emitted w"
    "delivered (addOptimisticUpdate ?off w i ty d r) = delivered w"
    unfolding a by simp_all
  have c': "emitted (confirmOptimisticUpdate ?off w i) = emitted w"
    "delivered (confirmOptimisticUpdate ?off w i) = delivered w"
    unfolding c by simp_all
  have r': "emitted (state_of (revertOptimisticUpdate ?off w i)) = emitted w"
    "delivered (state_of (revertOptimisticUpdate ?off w i)) = delivered w"
    unfolding r by (simp_all split: option.splits sum.splits)
  have ta: "tracker_state (addOptimisticUpdate ?off w i ty d r)
       = tracker_state (addOptimisticUpdate ?on w i ty d r)"
    by (simp add: tracker_state_add)
  have tc: "tracker_state (confirmOptimisticUpdate ?off w i)
       = tracker_state (confirmOptimisticUpdate ?on w i)"
    by (simp add: tracker_state_confirm)
  have h: "handleOnline ?off w = w\<lparr>isOnline := True\<rparr>"
    "handleOffline ?off w = w\<lparr>isOnline := False\<rparr>"
    by (simp_all add: handleOnline_def handleOffline_def emit_disabled)
  show ?thesis
    using e a c r a' c' r' ta tc h revert_broadcast_independent [of ?off w i ?on]
    by (simp only: simp_thms)
qed

text \<open>
  On a freshly mounted hook built with \<open>enableBroadcast: false\<close>, registering \<open>u1\<close>
  stores the entry and schedules its expiry at 10000; reverting it runs the compensating
  action and removes the entry; no event is ever built.
\<close>

theorem broadcast_disabled_suppresses_events_only_witness:
  "map fst (pendingUpdates silent_entry) = [''u1'']
   \<and> timers silent_entry = [(10000, ''u1'')]
   \<and> emitted silent_entry = []
   \<and> revertOptimisticUpdate silent_options silent_entry ''u1'' =
       Returns (mounted\<lparr>timers := [(10000, ''u1'')], reverts_run := [''u1'']\<rparr>)"
proof -
  have o: "silent_options = default_options\<lparr>enableBroadcast := False\<rparr>"
    by (simp add: silent_options_def)
  have s: "silent_entry = mounted\<lparr>pendingUpdates :=
             [(''u1'', \<lparr>upd_id = ''u1'', upd_type = ''engineer:add'', upd_data = DRemoved ''x'',
                        upd_timestamp = 0, revert = Some keep_store\<rparr>)],
           timers := [(10000, ''u1'')]\<rparr>"
    using broadcast_disabled_suppresses_events_only
            [of default_options mounted "''engineer:add''" PEmpty Local "''u1''"
                "DRemoved ''x''" "Some keep_store"]
    by (simp add: silent_entry_def o mounted_def initial_world_def)
  show ?thesis
    using broadcast_disabled_suppresses_events_only
            [of default_options silent_entry "''engineer:add''" PEmpty Local "''u1''"
                "DRemoved ''x''" "Some keep_store"]
    unfolding o [symmetric]
    by (simp add: s map_get_def map_delete_def keep_store_def mounted_def initial_world_def)
qed

section \<open>Properties of the store and of the optimistic flows\<close>

lemma foldl_add_sum_list:
  "foldl (\<lambda>total a. total + f a) z xs = z + sum_list (map f xs)" for z :: int
  by (induction xs arbitrary: z) simp_all

text \<open>
  What \<open>getEngineerWorkload\<close> computes: the sum over the assignments whose \<open>engineerId\<close>
  is the id as a string.
\<close>

lemma getEngineerWorkload_bare_ids:
  "getEngineerWorkload st i =
     sum_list (map allocationPercentage
       (filter (\<lambda>a. engineerId a = EngineerId i) (assignments st)))"
proof -
  have "engineer_ref_eq r i = (r = EngineerId i)" for r
    by (cases r) auto
  then show ?thesis
    by (simp add: getEngineerWorkload_def foldl_add_sum_list)
qed

text \<open>
  Claim C1 does not hold of the code. Engineer \<open>e1\<close> has an assignment of 40 that names
  the engineer by id and one of 70 that carries the populated object with \<open>_id = e1\<close>. The
  derived workload is 110; \<open>getEngineerWorkload\<close> returns 40, because an object is never
  \<open>===\<close> a string.
\<close>

theorem workload_ignores_populated_reference:
  "getEngineerWorkload populated_store ''e1'' = 40
   \<and> spec_workload populated_store ''e1'' = 110"
  by (simp add: getEngineerWorkload_def spec_workload_def populated_store_def
        sample_assignment_def initialState_def)

lemma string_of_1000: "string_of_nat 1000 = ''1000''"
  by (simp add: string_of_nat.simps digit_char_def)

lemma string_of_1500: "string_of_nat 1500 = ''1500''"
  by (simp add: string_of_nat.simps digit_char_def)

lemma sample_ids [simp]:
  "eng_id (sample_engineer i) = i" "proj_id (sample_project j) = j"
  "asg_id (sample_assignment k e pct) = k"
  by (simp_all add: sample_engineer_def sample_project_def sample_assignment_def)

lemma sample_engineer_name [simp]: "eng_name (sample_engineer i) = ''Ada''"
  by (simp add: sample_engineer_def)

text \<open>Patching a record with a full record gives it the id of the full record.\<close>

lemma spread_full_ids [simp]:
  "eng_id (spread_engineer e (engineer_as_patch e')) = eng_id e'"
  "proj_id (spread_project q (project_as_patch q')) = proj_id q'"
  by (simp_all add: spread_engineer_def engineer_as_patch_def spread_project_def
        project_as_patch_def override_def)

lemmas flow_defs =
  addEngineer_begin_def addProject_begin_def addAssignment_begin_def temp_id_def
  string_of_1000 string_of_1500 Let_def dispatch_def addOptimisticUpdate_def
  addEngineer_settle_def addEngineer_catch_def addProject_settle_def
  addAssignment_settle_def handleError_def confirmOptimisticUpdate_def
  revertOptimisticUpdate_def fireTimer_def timeoutCallback_def
  map_get_def map_delete_def map_has_def advance_def session_world_def initial_world_def

lemma two_engineer_adds_facts:
  "map eng_id (engineers (app two_engineer_adds)) = [''e1'', ''temp-1000'', ''e2'']"
  "map eng_id (engineers (app (state_of
        (revertOptimisticUpdate provider_options two_engineer_adds ''temp-1000'')))) = [''e1'']"
  "map eng_id (engineers (app (state_of
        (addEngineer_settle two_engineer_adds ''temp-1000'' (Rejected (Error ''offline''))))))
       = [''e1'']"
  "map eng_id (engineers (app (state_of
        (fireTimer provider_options (advance two_engineer_adds 9500) (11000, ''temp-1000'')))))
       = [''e1'']"
  by (simp_all add: two_engineer_adds_def flow_defs)

lemma two_project_adds_facts:
  "map proj_id (projects (app two_project_adds)) = [''p1'', ''temp-1000'', ''p2'']"
  "map proj_id (projects (app (state_of
        (addProject_settle two_project_adds ''temp-1000'' (Rejected (Error ''offline''))))))
       = [''p1'']"
  by (simp_all add: two_project_adds_def flow_defs)

lemma two_assignment_adds_facts:
  "map asg_id (assignments (app two_assignment_adds)) = [''a1'', ''temp-1000'', ''a2'']"
  "map asg_id (assignments (app (state_of
        (addAssignment_settle two_assignment_adds ''temp-1000''
           (Rejected (Error ''offline''))))))
       = [''a1'', ''a2'']"
  by (simp_all add: two_assignment_adds_def flow_defs)

text \<open>
  Claim C8 does not hold of the code for engineers and projects. Two adds are in flight;
  the second has been confirmed by the server and its record (\<open>e2\<close>) is in the store
  beside the temporary record of the first (\<open>temp-1000\<close>). When the first add is then
  reverted, by an explicit revert, by its failed remote call or by its expiry at 11000,
  its compensating action sets the collection to the list the closure saw when the add
  began: the temporary record goes, and so does \<open>e2\<close>. The same happens to a project.
  The compensating action of \<open>addAssignment\<close> removes the temporary record from the
  collection as it is at revert time, and the later record \<open>a2\<close> stays.
\<close>

theorem add_revert_discards_later_records:
  "map eng_id (engineers (app two_engineer_adds)) = [''e1'', ''temp-1000'', ''e2'']
   \<and> map eng_id (engineers (app (state_of
        (revertOptimisticUpdate provider_options two_engineer_adds ''temp-1000'')))) = [''e1'']
   \<and> map eng_id (engineers (app (state_of
        (addEngineer_settle two_engineer_adds ''temp-1000'' (Rejected (Error ''offline''))))))
       = [''e1'']
   \<and> map eng_id (engineers (app (state_of
        (fireTimer provider_options (advance two_engineer_adds 9500) (11000, ''temp-1000'')))))
       = [''e1'']
   \<and> map proj_id (projects (app two_project_adds)) = [''p1'', ''temp-1000'', ''p2'']
   \<and> map proj_id (projects (app (state_of
        (addProject_settle two_project_adds ''temp-1000'' (Rejected (Error ''offline''))))))
       = [''p1'']
   \<and> map asg_id (assignments (app two_assignment_adds)) = [''a1'', ''temp-1000'', ''a2'']
   \<and> map asg_id (assignments (app (state_of
        (addAssignment_settle two_assignment_adds ''temp-1000''
           (Rejected (Error ''offline''))))))
       = [''a1'', ''a2'']"
  by (simp only: two_engineer_adds_facts two_project_adds_facts two_assignment_adds_facts
        simp_thms)

section \<open>Properties of the background synchronisation\<close>

lemma provider_broadcast [simp]: "enableBroadcast provider_options"
  by (simp add: provider_options_def)

lemma emit_each_frame [simp]:
  "app (emit_each ty mk w xs) = app w"
  "pendingUpdates (emit_each ty mk w xs) = pendingUpdates w"
  "lastSyncData (emit_each ty mk w xs) = lastSyncData w"
  "clock (emit_each ty mk w xs) = clock w"
  "timers (emit_each ty mk w xs) = timers w"
  "reverts_run (emit_each ty mk w xs) = reverts_run w"
  unfolding emit_each_def
  by (induction xs arbitrary: w; simp)+

lemma emitted_emit_each:
  "emitted (emit_each ty mk w xs) = emitted w @ record_events (clock w) ty mk xs"
  unfolding emit_each_def record_events_def
  by (induction xs arbitrary: w) (simp_all add: emitted_emit)

lemma summary_is_zero:
  "(diff_summary nw od = no_changes) =
     (\<not> (length (new_items eng_id (sd_engineers nw) (sd_engineers od)) \<noteq> 0
         \<or> length (new_items proj_id (sd_projects nw) (sd_projects od)) \<noteq> 0
         \<or> length (new_items asg_id (sd_assignments nw) (sd_assignments od)) \<noteq> 0
         \<or> length (removed_items eng_id (sd_engineers nw) (sd_engineers od)) \<noteq> 0
         \<or> length (removed_items proj_id (sd_projects nw) (sd_projects od)) \<noteq> 0
         \<or> length (removed_items asg_id (sd_assignments nw) (sd_assignments od)) \<noteq> 0
         \<or> length (updated_items eng_id (sd_engineers nw) (sd_engineers od)) \<noteq> 0
         \<or> length (updated_items proj_id (sd_projects nw) (sd_projects od)) \<noteq> 0
         \<or> length (updated_items asg_id (sd_assignments nw) (sd_assignments od)) \<noteq> 0))"
  by (auto simp: diff_summary_def no_changes_def no_counts_def)

lemma checkForChanges_frame [simp]:
  "app (checkForChanges w nw od') = app w"
  "pendingUpdates (checkForChanges w nw od') = pendingUpdates w"
  "lastSyncData (checkForChanges w nw od') = lastSyncData w"
  "clock (checkForChanges w nw od') = clock w"
  "timers (checkForChanges w nw od') = timers w"
  "reverts_run (checkForChanges w nw od') = reverts_run w"
  by (simp_all add: checkForChanges_def Let_def split: option.splits)

lemma emitted_checkForChanges:
  "emitted (checkForChanges w nw (Some od)) = emitted w @ diff_events (clock w) nw od"
proof -
  have z: "(diff_summary nw od = no_changes) =
     (\<not> (length (new_items eng_id (sd_engineers nw) (sd_engineers od)) \<noteq> 0
         \<or> length (new_items proj_id (sd_projects nw) (sd_projects od)) \<noteq> 0
         \<or> length (new_items asg_id (sd_assignments nw) (sd_assignments od)) \<noteq> 0
         \<or> length (removed_items eng_id (sd_engineers nw) (sd_engineers od)) \<noteq> 0
         \<or> length (removed_items proj_id (sd_projects nw) (sd_projects od)) \<noteq> 0
         \<or> length (removed_items asg_id (sd_assignments nw) (sd_assignments od)) \<noteq> 0
         \<or> length (updated_items eng_id (sd_engineers nw) (sd_engineers od)) \<noteq> 0
         \<or> length (updated_items proj_id (sd_projects nw) (sd_projects od)) \<noteq> 0
         \<or> length (updated_items asg_id (sd_assignments nw) (sd_assignments od)) \<noteq> 0))"
    by (rule summary_is_zero)
  show ?thesis
  proof (cases "diff_summary nw od = no_changes")
    case True
    with z show ?thesis
      by (simp add: checkForChanges_def Let_def emitted_emit_each diff_events_def
            del: length_0_conv)
  next
    case False
    with z show ?thesis
      by (simp add: checkForChanges_def Let_def emitted_emit_each emitted_emit
            diff_events_def diff_summary_def del: length_0_conv)
  qed
qed

lemma emitted_checkForChanges_opt:
  "emitted (checkForChanges w nw od') =
     emitted w @ (case od' of None \<Rightarrow> [] | Some od \<Rightarrow> diff_events (clock w) nw od)"
  by (cases od') (simp_all add: emitted_checkForChanges, simp add: checkForChanges_def)

lemma at_settle_undisturbed:
  "at_settle w undisturbed = emit provider_options w ''sync:start'' PEmpty Local"
  by (simp add: at_settle_def undisturbed_def)

subsection \<open>\<open>performSync\<close> in closed form\<close>

lemma performSync_unfold:
  assumes "currentUser appc \<noteq> None" and "\<not> no_token appc"
  shows "performSync appc w during net =
     performSync_resume appc (at_settle w during) (fetchServerData appc net)"
proof -
  from assms(1) obtain u where "currentUser appc = Some u" by blast
  with assms(2) show ?thesis
    by (simp add: performSync_def performSync_begin_def at_settle_def)
qed

lemma resume_rejected:
  "performSync_resume appc v (Rejected e) =
     emit provider_options
       (v\<lparr>console := console v @ [''Background sync failed: '' @ describe e]\<rparr>)
       ''sync:error'' (PError (error_message e ''Unknown sync error'')) Local"
  by (simp add: performSync_resume_def)

lemma commit_eq:
  "dispatch (dispatch (dispatch w (SET_ENGINEERS es)) (SET_PROJECTS ps)) (SET_ASSIGNMENTS as)
     = w\<lparr>app := (app w)\<lparr>engineers := es, projects := ps, assignments := as\<rparr>\<rparr>"
  by (simp add: dispatch_def)

lemma resume_resolved:
  "performSync_resume appc v (Resolved nw) =
     emit provider_options
       ((if pendingUpdates v = [] then checkForChanges v nw (lastSyncData v)
         else emit provider_options (checkForChanges v nw (lastSyncData v))
                ''sync:conflict-resolved''
                (PConflict ''server-wins'' (view nw) (collections appc)) Local)
        \<lparr>app := (app v)\<lparr>engineers := map typed (sd_engineers nw),
                          projects := map typed (sd_projects nw),
                          assignments := map typed (sd_assignments nw)\<rparr>,
          lastSyncData := Some nw\<rparr>)
       ''sync:complete'' (PData (view nw)) Server"
proof -
  have c: "(if lastSyncData v \<noteq> None then checkForChanges v nw (lastSyncData v) else v)
             = checkForChanges v nw (lastSyncData v)"
    by (simp add: checkForChanges_def)
  show ?thesis
    unfolding performSync_resume_def settled.case Let_def c resolveConflicts_def
      prod.case commit_eq getPendingUpdates_def map_values_def collections_def
    by (simp add: dispatch_def)
qed

lemma resume_rejected_emitted:
  "emitted (performSync_resume appc v (Rejected e)) =
     emitted v @ [make_event (clock v) ''sync:error''
                    (PError (error_message e ''Unknown sync error'')) Local]"
  by (simp add: resume_rejected emitted_emit)

lemma resume_rejected_state:
  "app (performSync_resume appc v (Rejected e)) = app v"
  "lastSyncData (performSync_resume appc v (Rejected e)) = lastSyncData v"
  "tracker_state (performSync_resume appc v (Rejected e)) = tracker_state v"
  by (simp_all add: resume_rejected tracker_state_def)

lemma resume_resolved_emitted:
  "emitted (performSync_resume appc v (Resolved nw)) = emitted v @ settle_events appc v nw"
  unfolding resume_resolved settle_events_def
  by (cases "lastSyncData v"; simp add: emitted_emit emitted_checkForChanges_opt)

lemma resume_resolved_state:
  "app (performSync_resume appc v (Resolved nw)) =
     (app v)\<lparr>engineers := map typed (sd_engineers nw), projects := map typed (sd_projects nw),
              assignments := map typed (sd_assignments nw)\<rparr>"
  "lastSyncData (performSync_resume appc v (Resolved nw)) = Some nw"
  "pendingUpdates (performSync_resume appc v (Resolved nw)) = pendingUpdates v"
  unfolding resume_resolved by simp_all

lemma new_events_append [simp]: "emitted w' = emitted w @ es \<Longrightarrow> new_events w w' = es"
  by (simp add: new_events_def)

lemma emitted_start:
  "emitted (emit provider_options w ''sync:start'' PEmpty Local) =
     emitted w @ [make_event (clock w) ''sync:start'' PEmpty Local]"
  by (simp add: emitted_emit)

lemma performSync_rejected:
  assumes "currentUser appc \<noteq> None" and "\<not> no_token appc"
    and "fetchServerData appc net = Rejected e"
  shows "new_events (at_settle w during) (performSync appc w during net) =
           [make_event (clock (at_settle w during)) ''sync:error''
              (PError (error_message e ''Unknown sync error'')) Local]"
    and "app (performSync appc w during net) = app (at_settle w during)"
    and "lastSyncData (performSync appc w during net) = lastSyncData (at_settle w during)"
    and "tracker_state (performSync appc w during net) = tracker_state (at_settle w during)"
  unfolding performSync_unfold [OF assms(1,2)] assms(3)
  by (simp_all add: resume_rejected_emitted resume_rejected_state)

lemma performSync_rejected_alone:
  assumes "currentUser appc \<noteq> None" and "\<not> no_token appc"
    and "fetchServerData appc net = Rejected e"
  shows "new_events w (performSync appc w undisturbed net) =
           [make_event (clock w) ''sync:start'' PEmpty Local,
            make_event (clock w) ''sync:error''
              (PError (error_message e ''Unknown sync error'')) Local]"
    and "app (performSync appc w undisturbed net) = app w"
    and "lastSyncData (performSync appc w undisturbed net) = lastSyncData w"
    and "tracker_state (performSync appc w undisturbed net) = tracker_state w"
  unfolding performSync_unfold [OF assms(1,2)] assms(3) at_settle_undisturbed
  by (simp_all add: resume_rejected_emitted resume_rejected_state emitted_start)

lemma performSync_resolved:
  assumes "currentUser appc \<noteq> None" and "\<not> no_token appc"
    and "fetchServerData appc net = Resolved nw"
  shows "new_events (at_settle w during) (performSync appc w during net) =
           settle_events appc (at_settle w during) nw"
    and "app (performSync appc w during net) =
           (app (at_settle w during))\<lparr>engineers := map typed (sd_engineers nw),
              projects := map typed (sd_projects nw),
              assignments := map typed (sd_assignments nw)\<rparr>"
    and "lastSyncData (performSync appc w during net) = Some nw"
    and "pendingUpdates (performSync appc w during net) = pendingUpdates (at_settle w during)"
  unfolding performSync_unfold [OF assms(1,2)] assms(3)
  by (simp_all add: resume_resolved_emitted resume_resolved_state)

lemma performSync_resolved_alone:
  assumes "currentUser appc \<noteq> None" and "\<not> no_token appc"
    and "fetchServerData appc net = Resolved nw"
  shows "new_events w (performSync appc w undisturbed net) =
           make_event (clock w) ''sync:start'' PEmpty Local # settle_events appc w nw"
proof -
  have "settle_events appc (emit provider_options w ''sync:start'' PEmpty Local) nw
          = settle_events appc w nw"
    by (cases "lastSyncData w") (simp_all add: settle_events_def)
  then show ?thesis
    unfolding performSync_unfold [OF assms(1,2)] assms(3) at_settle_undisturbed
    by (simp add: resume_resolved_emitted emitted_start)
qed

text \<open>
  Claim C7. In a session (the closure that runs the sync was created with a user and
  a token), when the fetch of the authoritative snapshot fails in \<open>performSync\<close>, for
  whatever reason it fails and whether the browser is online or not, the events emitted
  are \<open>sync:start\<close> and then one \<open>sync:error\<close> whose payload carries the message of the
  error (\<open>Unknown sync error\<close> for a thrown value that is no \<open>Error\<close>), and the call
  returns with the store, the retained last snapshot and everything the tracker owns
  exactly as they were. Whatever else has gone on while the remote call was in flight,
  the failed sync emits its \<open>sync:error\<close> and leaves the store, the last snapshot and
  the tracker as it finds them when the call settles. \<open>forceSync\<close> is \<open>performSync\<close>.
\<close>

theorem failed_fetch_leaves_state:
  assumes "currentUser appc \<noteq> None" and "\<not> no_token appc"
    and "fetchServerData appc net = Rejected e"
  shows "new_events w (performSync appc w undisturbed net) =
           [make_event (clock w) ''sync:start'' PEmpty Local,
            make_event (clock w) ''sync:error''
              (PError (error_message e ''Unknown sync error'')) Local]
    \<and> app (performSync appc w undisturbed net) = app w
    \<and> lastSyncData (performSync appc w undisturbed net) = lastSyncData w
    \<and> tracker_state (performSync appc w undisturbed net) = tracker_state w
    \<and> new_events (at_settle w during) (performSync appc w during net) =
           [make_event (clock (at_settle w during)) ''sync:error''
              (PError (error_message e ''Unknown sync error'')) Local]
    \<and> app (performSync appc w during net) = app (at_settle w during)
    \<and> lastSyncData (performSync appc w during net) = lastSyncData (at_settle w during)
    \<and> tracker_state (performSync appc w during net) = tracker_state (at_settle w during)
    \<and> forceSync appc w during net = performSync appc w during net"
  using performSync_rejected [OF assms, of w during] performSync_rejected_alone [OF assms, of w]
  by (simp add: forceSync_def)

text \<open>\<open>forceSync\<close> while offline, the fetch failing with \<open>Failed to fetch\<close>.\<close>

theorem failed_fetch_leaves_state_witness:
  "currentUser (app offline_world) \<noteq> None
   \<and> \<not> no_token (app offline_world)
   \<and> fetchServerData (app offline_world) (Rejected (Error ''Failed to fetch''))
       = Rejected (Error ''Failed to fetch'')
   \<and> map ev_payload (new_events offline_world
        (forceSync (app offline_world) offline_world undisturbed (Rejected (Error ''Failed to fetch''))))
       = [PEmpty, PError ''Failed to fetch'']
   \<and> app (forceSync (app offline_world) offline_world undisturbed (Rejected (Error ''Failed to fetch'')))
       = app offline_world
   \<and> lastSyncData (forceSync (app offline_world) offline_world undisturbed
        (Rejected (Error ''Failed to fetch''))) = lastSyncData offline_world"
proof -
  have h: "currentUser (app offline_world) \<noteq> None" "\<not> no_token (app offline_world)"
    "fetchServerData (app offline_world) (Rejected (Error ''Failed to fetch''))
       = Rejected (Error ''Failed to fetch'')"
    by (simp_all add: offline_world_def session_world_def initial_world_def no_token_def
          fetchServerData_def)
  show ?thesis
    using h failed_fetch_leaves_state [OF h, of offline_world undisturbed]
    by (simp add: make_event_def error_message_def)
qed

lemma record_events_type:
  "events_of_type ty (record_events t ty' mk xs) =
     (if ty = ty' then record_events t ty' mk xs else [])"
  by (induction xs) (auto simp: events_of_type_def record_events_def make_event_def)

lemma events_of_type_append [simp]:
  "events_of_type ty (xs @ ys) = events_of_type ty xs @ events_of_type ty ys"
  by (simp add: events_of_type_def)

lemma events_of_type_Cons:
  "events_of_type ty (make_event t ty' p src # es) =
     (if ty = ty' then make_event t ty' p src # events_of_type ty es
      else events_of_type ty es)"
  by (auto simp: events_of_type_def make_event_def)

lemma events_of_type_Nil [simp]: "events_of_type ty [] = []"
  by (simp add: events_of_type_def)

lemma conflict_not_in_diff:
  "events_of_type ''sync:conflict-resolved'' (diff_events t nw od) = []"
  by (simp add: diff_events_def record_events_type events_of_type_Cons)

lemma conflict_in_settle_events:
  "pendingUpdates v \<noteq> [] \<Longrightarrow>
   events_of_type ''sync:conflict-resolved'' (settle_events appc v nw) =
     [make_event (clock v) ''sync:conflict-resolved''
        (PConflict ''server-wins'' (view nw) (collections appc)) Local]"
  by (simp add: settle_events_def events_of_type_Cons conflict_not_in_diff
        split: option.splits)

lemma collections_commit:
  "collections (a\<lparr>engineers := map typed (sd_engineers nw),
                  projects := map typed (sd_projects nw),
                  assignments := map typed (sd_assignments nw)\<rparr>) = view nw"
  by (simp add: collections_def view_def)

text \<open>
  Claim C4, as amended. Whenever \<open>performSync\<close> succeeds in a session and at least one
  optimistic entry is pending when its remote call settles, the fetched snapshot replaces
  the three collections of the store, the pending entries stay as they are, and exactly
  one \<open>sync:conflict-resolved\<close> event is emitted. Its payload carries the strategy name
  \<open>server-wins\<close>, the server data and, as local data, neither the pending entries nor
  the store as it is then, but the three collections of the context value the closure
  that runs the sync was created with (\<open>currentData\<close>).
\<close>

theorem conflict_resolved_server_wins:
  assumes "currentUser appc \<noteq> None" and "\<not> no_token appc"
    and "fetchServerData appc net = Resolved serverData"
    and "getPendingUpdates (at_settle w during) \<noteq> []"
  shows "collections (app (performSync appc w during net)) = view serverData
    \<and> events_of_type ''sync:conflict-resolved''
        (new_events (at_settle w during) (performSync appc w during net)) =
        [make_event (clock (at_settle w during)) ''sync:conflict-resolved''
           (PConflict ''server-wins'' (view serverData) (collections appc)) Local]
    \<and> lastSyncData (performSync appc w during net) = Some serverData
    \<and> getPendingUpdates (performSync appc w during net) = getPendingUpdates (at_settle w during)
    \<and> (getPendingUpdates w \<noteq> [] \<longrightarrow>
         events_of_type ''sync:conflict-resolved''
           (new_events w (performSync appc w undisturbed net)) =
           [make_event (clock w) ''sync:conflict-resolved''
              (PConflict ''server-wins'' (view serverData) (collections appc)) Local])"
proof -
  note h = assms(1,2,3)
  have p: "pendingUpdates (at_settle w during) \<noteq> []"
    using assms(4) by (simp add: getPendingUpdates_def map_values_def)
  have one: "events_of_type ''sync:conflict-resolved''
        (new_events (at_settle w during) (performSync appc w during net)) =
        [make_event (clock (at_settle w during)) ''sync:conflict-resolved''
           (PConflict ''server-wins'' (view serverData) (collections appc)) Local]"
    unfolding performSync_resolved(1) [OF h] using p by (rule conflict_in_settle_events)
  have alone: "events_of_type ''sync:conflict-resolved''
        (new_events w (performSync appc w undisturbed net)) =
        [make_event (clock w) ''sync:conflict-resolved''
           (PConflict ''server-wins'' (view serverData) (collections appc)) Local]"
    if "getPendingUpdates w \<noteq> []"
  proof -
    have "pendingUpdates w \<noteq> []"
      using that by (simp add: getPendingUpdates_def map_values_def)
    then show ?thesis
      unfolding performSync_resolved_alone [OF h]
      by (simp add: events_of_type_Cons conflict_in_settle_events)
  qed
  show ?thesis
    using one alone performSync_resolved(2,3,4) [OF h, of w during]
    by (simp add: collections_commit getPendingUpdates_def)
qed

lemma session_facts:
  "currentUser (app session_world) \<noteq> None" "\<not> no_token (app session_world)"
  "fetchServerData (app session_world) sample_net = Resolved sample_server"
  by (simp_all add: session_world_def initial_world_def no_token_def fetchServerData_def
        sample_net_def sample_server_def)

lemma add_during_fetch_facts:
  "map upd_id (getPendingUpdates (at_settle session_world add_during_fetch)) = [''temp-1000'']"
  "map eng_id (engineers (app (at_settle session_world add_during_fetch)))
     = [''e1'', ''temp-1000'']"
  "map eng_id (s_engineers (collections (app session_world))) = [''e1'']"
  by (simp_all add: at_settle_def run_def add_during_fetch_def addOptimisticUpdate_def
        Let_def getPendingUpdates_def map_values_def collections_def session_world_def
        initial_world_def)

text \<open>
  A sync begun in the session, during whose remote call an engineer is added
  optimistically. The local data of the event are the collections the closure was
  created with, without the temporary record the store holds by then.
\<close>

theorem conflict_resolved_server_wins_witness:
  "currentUser (app session_world) \<noteq> None
   \<and> \<not> no_token (app session_world)
   \<and> fetchServerData (app session_world) sample_net = Resolved sample_server
   \<and> getPendingUpdates (at_settle session_world add_during_fetch) \<noteq> []
   \<and> map eng_id (engineers (app (at_settle session_world add_during_fetch)))
       = [''e1'', ''temp-1000'']
   \<and> collections (app (performSync (app session_world) session_world add_during_fetch
        sample_net)) = view sample_server
   \<and> map ev_payload (events_of_type ''sync:conflict-resolved''
        (new_events (at_settle session_world add_during_fetch)
           (performSync (app session_world) session_world add_during_fetch sample_net)))
       = [PConflict ''server-wins'' (view sample_server) (collections (app session_world))]
   \<and> map eng_id (s_engineers (collections (app session_world))) = [''e1'']"
proof -
  have p: "getPendingUpdates (at_settle session_world add_during_fetch) \<noteq> []"
    using add_during_fetch_facts(1) by auto
  show ?thesis
    using session_facts p add_during_fetch_facts(2,3)
      conflict_resolved_server_wins [OF session_facts p]
    by (simp add: make_event_def)
qed

lemma conflict_fixture_facts:
  "currentUser (app conflict_world_a) \<noteq> None" "\<not> no_token (app conflict_world_a)"
  "fetchServerData (app conflict_world_a) sample_net = Resolved sample_server"
  "currentUser (app conflict_world_b) \<noteq> None" "\<not> no_token (app conflict_world_b)"
  "fetchServerData (app conflict_world_b) sample_net = Resolved sample_server"
  "app conflict_world_a = app session_world" "app conflict_world_b = app session_world"
  "lastSyncData conflict_world_a = None" "lastSyncData conflict_world_b = None"
  "clock conflict_world_a = 1000" "clock conflict_world_b = 1000"
  by (simp_all add: conflict_world_a_def conflict_world_b_def session_world_def
        initial_world_def no_token_def fetchServerData_def sample_net_def sample_server_def)

text \<open>
  Claim C4 as stated fails in what the event carries as local data. Two sessions with
  the same store and different pending entries, in which nothing else goes on during the
  sync, emit the same \<open>sync:conflict-resolved\<close> event; the local data in it are the
  store's collections, in which the pending engineer \<open>temp-900\<close> does not occur.
\<close>

theorem conflict_local_data_counterexample:
  "getPendingUpdates conflict_world_a \<noteq> getPendingUpdates conflict_world_b
   \<and> events_of_type ''sync:conflict-resolved''
        (new_events conflict_world_a
           (performSync (app conflict_world_a) conflict_world_a undisturbed sample_net))
       = events_of_type ''sync:conflict-resolved''
           (new_events conflict_world_b
              (performSync (app conflict_world_b) conflict_world_b undisturbed sample_net))
   \<and> map ev_payload (events_of_type ''sync:conflict-resolved''
        (new_events conflict_world_a
           (performSync (app conflict_world_a) conflict_world_a undisturbed sample_net)))
       = [PConflict ''server-wins'' (view sample_server)
            \<lparr>s_engineers = [sample_engineer ''e1''], s_projects = [sample_project ''p1''],
             s_assignments = [sample_assignment ''a1'' (EngineerId ''e1'') 40]\<rparr>]
   \<and> map upd_data (getPendingUpdates conflict_world_a)
       = [DEngineer (sample_engineer ''temp-900'')]"
proof -
  have a: "pendingUpdates conflict_world_a \<noteq> []" "pendingUpdates conflict_world_b \<noteq> []"
    by (simp_all add: conflict_world_a_def conflict_world_b_def)
  have c: "collections (app session_world) =
      \<lparr>s_engineers = [sample_engineer ''e1''], s_projects = [sample_project ''p1''],
       s_assignments = [sample_assignment ''a1'' (EngineerId ''e1'') 40]\<rparr>"
    by (simp add: collections_def session_world_def)
  have d: "getPendingUpdates conflict_world_a \<noteq> getPendingUpdates conflict_world_b"
    "map upd_data (getPendingUpdates conflict_world_a) = [DEngineer (sample_engineer ''temp-900'')]"
    by (simp_all add: getPendingUpdates_def map_values_def conflict_world_a_def
          conflict_world_b_def)
  have ea: "events_of_type ''sync:conflict-resolved''
        (new_events conflict_world_a
           (performSync (app conflict_world_a) conflict_world_a undisturbed sample_net))
       = [make_event 1000 ''sync:conflict-resolved''
            (PConflict ''server-wins'' (view sample_server) (collections (app session_world)))
            Local]"
    unfolding performSync_resolved_alone [OF conflict_fixture_facts(1,2,3)]
    using a(1)
    by (simp add: conflict_fixture_facts events_of_type_Cons conflict_in_settle_events)
  have eb: "events_of_type ''sync:conflict-resolved''
        (new_events conflict_world_b
           (performSync (app conflict_world_b) conflict_world_b undisturbed sample_net))
       = [make_event 1000 ''sync:conflict-resolved''
            (PConflict ''server-wins'' (view sample_server) (collections (app session_world)))
            Local]"
    unfolding performSync_resolved_alone [OF conflict_fixture_facts(4,5,6)]
    using a(2)
    by (simp add: conflict_fixture_facts events_of_type_Cons conflict_in_settle_events)
  show ?thesis
    unfolding ea eb using d by (simp add: c make_event_def)
qed

subsection \<open>The diff of two snapshots\<close>

lemma find_by_key:
  "distinct (ids_of key xs) \<Longrightarrow> x \<in> set xs \<Longrightarrow>
   find (\<lambda>y. key (typed y) = key (typed x)) xs = Some x"
  by (induction xs) (auto simp: ids_of_def image_iff)

lemma find_key_None:
  "(find (\<lambda>y. key (typed y) = k) xs = None) = (k \<notin> set (ids_of key xs))"
  by (induction xs) (auto simp: ids_of_def)

lemma new_items_filter:
  "new_items key nl ol = filter (\<lambda>e. key (typed e) \<notin> set (ids_of key ol)) nl"
  by (simp add: new_items_def find_key_None)

lemma removed_items_filter:
  "removed_items key nl ol = filter (\<lambda>e. key (typed e) \<notin> set (ids_of key nl)) ol"
  by (simp add: removed_items_def find_key_None)

lemma new_items_inserted:
  "key (typed r) \<notin> set (ids_of key (xs @ ys)) \<Longrightarrow>
   new_items key (xs @ r # ys) (xs @ ys) = [r]"
  by (auto simp: new_items_filter filter_empty_conv ids_of_def)

lemma removed_items_inserted: "removed_items key (xs @ r # ys) (xs @ ys) = []"
  by (auto simp: removed_items_filter filter_empty_conv ids_of_def)

lemma updated_items_inserted:
  assumes "distinct (ids_of key (xs @ ys))" and "key (typed r) \<notin> set (ids_of key (xs @ ys))"
  shows "updated_items key (xs @ r # ys) (xs @ ys) = []"
proof -
  have "find (\<lambda>old. key (typed old) = key (typed e)) (xs @ ys) = Some e"
    if "e \<in> set (xs @ ys)" for e
    using assms(1) that by (rule find_by_key)
  moreover have "find (\<lambda>old. key (typed old) = key (typed r)) (xs @ ys) = None"
    using assms(2) by (simp only: find_key_None) simp
  ultimately show ?thesis
    unfolding updated_items_def filter_empty_conv by auto
qed

lemma new_items_same: "new_items key xs xs = []"
  by (auto simp: new_items_filter filter_empty_conv ids_of_def)

lemma removed_items_same: "removed_items key xs xs = []"
  by (auto simp: removed_items_filter filter_empty_conv ids_of_def)

lemma updated_items_same:
  assumes "distinct (ids_of key xs)"
  shows "updated_items key xs xs = []"
proof -
  have "find (\<lambda>old. key (typed old) = key (typed e)) xs = Some e" if "e \<in> set xs" for e
    using assms that by (rule find_by_key)
  then show ?thesis
    unfolding updated_items_def filter_empty_conv by auto
qed

lemma diff_events_by_type:
  "events_of_type ''external:engineer:added'' (diff_events t nw od) =
     record_events t ''external:engineer:added'' PEngineer
       (new_items eng_id (sd_engineers nw) (sd_engineers od))"
  "events_of_type ''external:project:added'' (diff_events t nw od) =
     record_events t ''external:project:added'' PProject
       (new_items proj_id (sd_projects nw) (sd_projects od))"
  "events_of_type ''external:assignment:added'' (diff_events t nw od) =
     record_events t ''external:assignment:added'' PAssignment
       (new_items asg_id (sd_assignments nw) (sd_assignments od))"
  "events_of_type ''external:engineer:removed'' (diff_events t nw od) =
     record_events t ''external:engineer:removed'' PEngineer
       (removed_items eng_id (sd_engineers nw) (sd_engineers od))"
  "events_of_type ''external:project:removed'' (diff_events t nw od) =
     record_events t ''external:project:removed'' PProject
       (removed_items proj_id (sd_projects nw) (sd_projects od))"
  "events_of_type ''external:assignment:removed'' (diff_events t nw od) =
     record_events t ''external:assignment:removed'' PAssignment
       (removed_items asg_id (sd_assignments nw) (sd_assignments od))"
  "events_of_type ''external:engineer:updated'' (diff_events t nw od) =
     record_events t ''external:engineer:updated'' PEngineer
       (updated_items eng_id (sd_engineers nw) (sd_engineers od))"
  "events_of_type ''external:project:updated'' (diff_events t nw od) =
     record_events t ''external:project:updated'' PProject
       (updated_items proj_id (sd_projects nw) (sd_projects od))"
  "events_of_type ''external:assignment:updated'' (diff_events t nw od) =
     record_events t ''external:assignment:updated'' PAssignment
       (updated_items asg_id (sd_assignments nw) (sd_assignments od))"
  "events_of_type ''external:changes-detected'' (diff_events t nw od) =
     (if diff_summary nw od = no_changes then []
      else [make_event t ''external:changes-detected'' (PChanges (diff_summary nw od))
              Server])"
  by (simp_all add: diff_events_def record_events_type events_of_type_Cons)

lemma record_events_payloads [simp]:
  "map ev_payload (record_events t ty mk xs) = map (\<lambda>x. mk (typed x)) xs"
  "length (record_events t ty mk xs) = length xs"
  by (simp_all add: record_events_def make_event_def)

text \<open>Outside the diff, a sync emits only events whose type starts with \<open>sync:\<close>.\<close>

lemma settle_events_of_external_type:
  assumes "lastSyncData v = Some od"
    and "ty \<noteq> ''sync:conflict-resolved''" and "ty \<noteq> ''sync:complete''"
  shows "events_of_type ty (settle_events appc v nw) =
           events_of_type ty (diff_events (clock v) nw od)"
  using assms by (simp add: settle_events_def events_of_type_Cons)

lemma summary_of_settle_events:
  assumes "lastSyncData v = Some od"
  shows "summary_of (settle_events appc v nw) = diff_summary nw od"
  unfolding summary_of_def count_of_def diff_summary_def
  by (simp add: settle_events_of_external_type [OF assms] diff_events_by_type)

lemma is_external_make_event:
  "is_external (make_event t ty p src) = (take 9 ty = ''external:'')"
  by (simp add: is_external_def make_event_def)

lemma diff_events_one_new_engineer:
  assumes "distinct (ids_of eng_id (xs @ ys))"
    and "distinct (ids_of proj_id (sd_projects od))"
    and "distinct (ids_of asg_id (sd_assignments od))"
    and "eng_id (typed r) \<notin> set (ids_of eng_id (xs @ ys))"
    and "sd_engineers od = xs @ ys"
    and "nw = od\<lparr>sd_engineers := xs @ r # ys\<rparr>"
  shows "diff_events t nw od =
     [make_event t ''external:engineer:added'' (PEngineer (typed r)) Server,
      make_event t ''external:changes-detected''
        (PChanges \<lparr>added = \<lparr>n_engineers = 1, n_projects = 0, n_assignments = 0\<rparr>,
                   removed = no_counts, updated = no_counts\<rparr>) Server]"
proof -
  have e: "new_items eng_id (sd_engineers nw) (sd_engineers od) = [r]"
    "removed_items eng_id (sd_engineers nw) (sd_engineers od) = []"
    "updated_items eng_id (sd_engineers nw) (sd_engineers od) = []"
    using assms(1,4)
    by (simp_all add: assms(5,6) new_items_inserted removed_items_inserted
          updated_items_inserted)
  have p: "new_items proj_id (sd_projects nw) (sd_projects od) = []"
    "removed_items proj_id (sd_projects nw) (sd_projects od) = []"
    "updated_items proj_id (sd_projects nw) (sd_projects od) = []"
    using assms(2)
    by (simp_all add: assms(6) new_items_same removed_items_same updated_items_same)
  have a: "new_items asg_id (sd_assignments nw) (sd_assignments od) = []"
    "removed_items asg_id (sd_assignments nw) (sd_assignments od) = []"
    "updated_items asg_id (sd_assignments nw) (sd_assignments od) = []"
    using assms(3)
    by (simp_all add: assms(6) new_items_same removed_items_same updated_items_same)
  have s: "diff_summary nw od =
      \<lparr>added = \<lparr>n_engineers = 1, n_projects = 0, n_assignments = 0\<rparr>,
       removed = no_counts, updated = no_counts\<rparr>"
    by (simp add: diff_summary_def e p a no_counts_def)
  show ?thesis
    unfolding diff_events_def s e p a
    by (simp add: record_events_def no_changes_def no_counts_def)
qed

lemma external_settle_events:
  "filter is_external (settle_events appc v nw) =
     (case lastSyncData v of None \<Rightarrow> [] | Some od \<Rightarrow> filter is_external (diff_events (clock v) nw od))"
  by (cases "lastSyncData v") (simp_all add: settle_events_def is_external_make_event)

text \<open>
  Claim C3, as amended. In every successful \<open>performSync\<close> of a session that has a
  previous snapshot, the events emitted after the remote call has settled (\<open>evs\<close>)
  contain, for each of the three collections and each kind of change, one event
  \<open>external:<entity>:<kind>\<close> per record the diff classifies so, carrying that record; the
  entity is named in the singular (\<open>engineer\<close>, \<open>project\<close>, \<open>assignment\<close>). They contain
  one aggregate \<open>external:changes-detected\<close> event whose nine counts are exactly the
  numbers of per-record events of each type in \<open>evs\<close>, and none when all nine are zero.
  A record counts as updated when the text \<open>JSON.stringify\<close> gives for the object of the
  new snapshot differs from that of the first object with its id in the previous one. In
  particular, when the ids within each collection of the previous snapshot are distinct
  and the new snapshot consists of the objects of the previous one, each with the same
  text as before, and one more engineer with a fresh id, the \<open>external:\<close> events are
  exactly one \<open>external:engineer:added\<close> for that engineer and the aggregate with
  \<open>added.engineers = 1\<close> and all other counts 0.
\<close>

theorem diff_events_match_aggregate:
  assumes "currentUser appc \<noteq> None" and "\<not> no_token appc"
    and "fetchServerData appc net = Resolved newData"
    and "lastSyncData (at_settle w during) = Some oldData"
    and "evs = new_events (at_settle w during) (performSync appc w during net)"
  shows "payloads_of ''external:engineer:added'' evs =
           map (\<lambda>x. PEngineer (typed x))
             (new_items eng_id (sd_engineers newData) (sd_engineers oldData))
    \<and> payloads_of ''external:project:added'' evs =
           map (\<lambda>x. PProject (typed x))
             (new_items proj_id (sd_projects newData) (sd_projects oldData))
    \<and> payloads_of ''external:assignment:added'' evs =
           map (\<lambda>x. PAssignment (typed x))
             (new_items asg_id (sd_assignments newData) (sd_assignments oldData))
    \<and> payloads_of ''external:engineer:removed'' evs =
           map (\<lambda>x. PEngineer (typed x))
             (removed_items eng_id (sd_engineers newData) (sd_engineers oldData))
    \<and> payloads_of ''external:project:removed'' evs =
           map (\<lambda>x. PProject (typed x))
             (removed_items proj_id (sd_projects newData) (sd_projects oldData))
    \<and> payloads_of ''external:assignment:removed'' evs =
           map (\<lambda>x. PAssignment (typed x))
             (removed_items asg_id (sd_assignments newData) (sd_assignments oldData))
    \<and> payloads_of ''external:engineer:updated'' evs =
           map (\<lambda>x. PEngineer (typed x))
             (updated_items eng_id (sd_engineers newData) (sd_engineers oldData))
    \<and> payloads_of ''external:project:updated'' evs =
           map (\<lambda>x. PProject (typed x))
             (updated_items proj_id (sd_projects newData) (sd_projects oldData))
    \<and> payloads_of ''external:assignment:updated'' evs =
           map (\<lambda>x. PAssignment (typed x))
             (updated_items asg_id (sd_assignments newData) (sd_assignments oldData))
    \<and> events_of_type ''external:changes-detected'' evs =
           (if summary_of evs = no_changes then []
            else [make_event (clock (at_settle w during)) ''external:changes-detected''
                    (PChanges (summary_of evs)) Server])
    \<and> (distinct (ids_of eng_id (xs @ ys)) \<and> distinct (ids_of proj_id (sd_projects oldData))
         \<and> distinct (ids_of asg_id (sd_assignments oldData))
         \<and> eng_id (typed r) \<notin> set (ids_of eng_id (xs @ ys))
         \<and> sd_engineers oldData = xs @ ys
         \<and> newData = oldData\<lparr>sd_engineers := xs @ r # ys\<rparr>
        \<longrightarrow> filter is_external evs =
             [make_event (clock (at_settle w during)) ''external:engineer:added''
                (PEngineer (typed r)) Server,
              make_event (clock (at_settle w during)) ''external:changes-detected''
                (PChanges \<lparr>added = \<lparr>n_engineers = 1, n_projects = 0, n_assignments = 0\<rparr>,
                           removed = no_counts, updated = no_counts\<rparr>) Server])"
proof -
  note h = assms(1-3)
  let ?v = "at_settle w during"
  have old: "lastSyncData ?v = Some oldData"
    using assms(4) .
  have evs: "evs = settle_events appc ?v newData"
    unfolding assms(5) using h by (rule performSync_resolved(1))
  have per_record:
    "events_of_type ty evs = events_of_type ty (diff_events (clock ?v) newData oldData)"
    if "ty \<noteq> ''sync:conflict-resolved''" "ty \<noteq> ''sync:complete''" for ty
    unfolding evs using old that by (rule settle_events_of_external_type)
  have summary: "summary_of evs = diff_summary newData oldData"
    unfolding evs using old by (rule summary_of_settle_events)
  have particular: "filter is_external evs =
             [make_event (clock ?v) ''external:engineer:added'' (PEngineer (typed r)) Server,
              make_event (clock ?v) ''external:changes-detected''
                (PChanges \<lparr>added = \<lparr>n_engineers = 1, n_projects = 0, n_assignments = 0\<rparr>,
                           removed = no_counts, updated = no_counts\<rparr>) Server]"
    if "distinct (ids_of eng_id (xs @ ys))" "distinct (ids_of proj_id (sd_projects oldData))"
      "distinct (ids_of asg_id (sd_assignments oldData))"
      "eng_id (typed r) \<notin> set (ids_of eng_id (xs @ ys))"
      "sd_engineers oldData = xs @ ys" "newData = oldData\<lparr>sd_engineers := xs @ r # ys\<rparr>"
    unfolding evs external_settle_events old option.case
      diff_events_one_new_engineer [OF that]
    by (simp add: is_external_make_event)
  show ?thesis
    using particular
    by (simp add: payloads_of_def per_record diff_events_by_type summary)
qed

lemma synced_fixture_facts:
  "currentUser (app synced_world) \<noteq> None" "\<not> no_token (app synced_world)"
  "fetchServerData (app synced_world) sample_net = Resolved sample_server"
  "lastSyncData synced_world = Some previous_snapshot"
  by (simp_all add: synced_world_def session_world_def
        initial_world_def no_token_def fetchServerData_def sample_net_def sample_server_def)

lemma fetched_ids [simp]:
  "eng_id (typed (fetched_engineer i)) = i" "eng_id (typed (reordered_engineer i)) = i"
  "proj_id (typed (fetched_project j)) = j" "asg_id (typed (fetched_assignment k)) = k"
  by (simp_all add: fetched_engineer_def reordered_engineer_def fetched_project_def
        fetched_assignment_def)

lemma synced_fixture_shape:
  "clock synced_world = 1000"
  "pendingUpdates synced_world = []"
  "distinct (ids_of eng_id ([fetched_engineer ''e1''] @ []))"
  "distinct (ids_of proj_id (sd_projects previous_snapshot))"
  "distinct (ids_of asg_id (sd_assignments previous_snapshot))"
  "eng_id (typed (fetched_engineer ''e9'')) \<notin> set (ids_of eng_id ([fetched_engineer ''e1''] @ []))"
  "sd_engineers previous_snapshot = [fetched_engineer ''e1''] @ []"
  "sample_server = previous_snapshot
     \<lparr>sd_engineers := [fetched_engineer ''e1''] @ fetched_engineer ''e9'' # []\<rparr>"
  by (simp_all add: synced_world_def session_world_def initial_world_def
        previous_snapshot_def sample_server_def ids_of_def)

lemma at_settle_undisturbed_frame [simp]:
  "clock (at_settle w undisturbed) = clock w"
  "lastSyncData (at_settle w undisturbed) = lastSyncData w"
  by (simp_all add: at_settle_undisturbed)

text \<open>A second sync of the session, where the server has one more engineer.\<close>

theorem diff_events_match_aggregate_witness:
  "currentUser (app synced_world) \<noteq> None
   \<and> \<not> no_token (app synced_world)
   \<and> fetchServerData (app synced_world) sample_net = Resolved sample_server
   \<and> lastSyncData (at_settle synced_world undisturbed) = Some previous_snapshot
   \<and> filter is_external (new_events (at_settle synced_world undisturbed)
        (performSync (app synced_world) synced_world undisturbed sample_net)) =
       [make_event 1000 ''external:engineer:added'' (PEngineer (sample_engineer ''e9'')) Server,
        make_event 1000 ''external:changes-detected''
          (PChanges \<lparr>added = \<lparr>n_engineers = 1, n_projects = 0, n_assignments = 0\<rparr>,
                     removed = no_counts, updated = no_counts\<rparr>) Server]"
proof -
  have l: "lastSyncData (at_settle synced_world undisturbed) = Some previous_snapshot"
    by (simp add: synced_fixture_facts)
  show ?thesis
    using synced_fixture_facts(1,2,3) l synced_fixture_shape
      diff_events_match_aggregate
        [OF synced_fixture_facts(1,2,3) l refl, where xs = "[fetched_engineer ''e1'']"
           and ys = "[]" and r = "fetched_engineer ''e9''"]
    by (simp add: fetched_engineer_def)
qed

lemma duplicate_fixture_facts:
  "currentUser (app duplicate_world) \<noteq> None" "\<not> no_token (app duplicate_world)"
  "fetchServerData (app duplicate_world) duplicate_net =
     Resolved (duplicate_snapshot
       \<lparr>sd_engineers := sd_engineers duplicate_snapshot @ [fetched_engineer ''e9'']\<rparr>)"
  "lastSyncData duplicate_world = Some duplicate_snapshot"
  "pendingUpdates duplicate_world = []"
  by (simp_all add: duplicate_world_def session_world_def initial_world_def no_token_def
        fetchServerData_def duplicate_net_def duplicate_snapshot_def)

lemma duplicate_types:
  "map ev_type (new_events duplicate_world
        (performSync (app duplicate_world) duplicate_world undisturbed duplicate_net)) =
       [''sync:start'', ''external:engineer:added'', ''external:engineer:updated'',
        ''external:changes-detected'', ''sync:complete'']"
  unfolding performSync_resolved_alone [OF duplicate_fixture_facts(1,2,3)] settle_events_def
    duplicate_fixture_facts(4,5) option.case
  by (simp add: diff_events_def diff_summary_def new_items_def removed_items_def
        updated_items_def record_events_def duplicate_snapshot_def fetched_engineer_def
        no_changes_def no_counts_def make_event_def)

lemma reordered_fixture_facts:
  "fetchServerData (app synced_world) reordered_net =
     Resolved (sample_server
       \<lparr>sd_engineers := [reordered_engineer ''e1'', fetched_engineer ''e9'']\<rparr>)"
  "typed (reordered_engineer ''e1'') = typed (fetched_engineer ''e1'')"
  "json (reordered_engineer ''e1'') \<noteq> json (fetched_engineer ''e1'')"
  by (simp_all add: synced_world_def session_world_def initial_world_def no_token_def
        fetchServerData_def reordered_net_def sample_server_def reordered_engineer_def
        fetched_engineer_def)

lemma reordered_types:
  "map ev_type (new_events synced_world
        (performSync (app synced_world) synced_world undisturbed reordered_net)) =
       [''sync:start'', ''external:engineer:added'', ''external:engineer:updated'',
        ''external:changes-detected'', ''sync:complete'']"
  unfolding performSync_resolved_alone [OF synced_fixture_facts(1,2) reordered_fixture_facts(1)]
    settle_events_def synced_fixture_facts(4) synced_fixture_shape(2) option.case
  by (simp add: diff_events_def diff_summary_def new_items_def removed_items_def
        updated_items_def record_events_def previous_snapshot_def sample_server_def
        fetched_engineer_def reordered_engineer_def fetched_project_def
        fetched_assignment_def no_changes_def no_counts_def make_event_def)

text \<open>
  Claim C3 as stated fails in the name of the per-record event. The new snapshot differs
  from the previous one only by one new engineer, and no event of type
  \<open>external:engineers:added\<close> is emitted: the event for the new engineer has the type
  \<open>external:engineer:added\<close>. Nor does one new engineer always leave all other counts at
  0. When engineer \<open>e1\<close> arrives with the same data and its keys in another order, its
  text differs and it is reported as updated. And where two records of the previous
  snapshot share an id, the second of the two is compared with the first and reported
  as updated.
\<close>

theorem plural_event_name_counterexample:
  "sample_server = previous_snapshot
     \<lparr>sd_engineers := sd_engineers previous_snapshot @ [fetched_engineer ''e9'']\<rparr>
   \<and> events_of_type ''external:engineers:added''
        (new_events synced_world
           (performSync (app synced_world) synced_world undisturbed sample_net)) = []
   \<and> map ev_type (new_events synced_world
        (performSync (app synced_world) synced_world undisturbed sample_net)) =
       [''sync:start'', ''external:engineer:added'', ''external:changes-detected'',
        ''sync:complete'']
   \<and> typed (reordered_engineer ''e1'') = typed (fetched_engineer ''e1'')
   \<and> map ev_type (new_events synced_world
        (performSync (app synced_world) synced_world undisturbed reordered_net)) =
       [''sync:start'', ''external:engineer:added'', ''external:engineer:updated'',
        ''external:changes-detected'', ''sync:complete'']
   \<and> map ev_type (new_events duplicate_world
        (performSync (app duplicate_world) duplicate_world undisturbed duplicate_net)) =
       [''sync:start'', ''external:engineer:added'', ''external:engineer:updated'',
        ''external:changes-detected'', ''sync:complete'']"
proof -
  have d: "diff_events 1000 sample_server previous_snapshot =
     [make_event 1000 ''external:engineer:added''
        (PEngineer (typed (fetched_engineer ''e9''))) Server,
      make_event 1000 ''external:changes-detected''
        (PChanges \<lparr>added = \<lparr>n_engineers = 1, n_projects = 0, n_assignments = 0\<rparr>,
                   removed = no_counts, updated = no_counts\<rparr>) Server]"
    using synced_fixture_shape(3-8) by (rule diff_events_one_new_engineer)
  have s: "sample_server = previous_snapshot
     \<lparr>sd_engineers := sd_engineers previous_snapshot @ [fetched_engineer ''e9'']\<rparr>"
    by (simp add: previous_snapshot_def sample_server_def)
  have "events_of_type ''external:engineers:added''
        (new_events synced_world
           (performSync (app synced_world) synced_world undisturbed sample_net)) = []"
    "map ev_type (new_events synced_world
        (performSync (app synced_world) synced_world undisturbed sample_net)) =
       [''sync:start'', ''external:engineer:added'', ''external:changes-detected'',
        ''sync:complete'']"
    unfolding performSync_resolved_alone [OF synced_fixture_facts(1,2,3)] settle_events_def
      synced_fixture_facts(4) option.case synced_fixture_shape(1,2) d
    by (simp_all add: events_of_type_Cons) (simp add: make_event_def)
  with s duplicate_types reordered_types reordered_fixture_facts(2) show ?thesis
    by simp
qed

end
